theory Spec2Isabelle
  imports Complex_Main "HOL-Library.AList" "HOL-Library.Sublist"
begin

section \<open>Python values used by the hypothesis tester\<close>

text \<open>
  Floats are compared but never computed with in the code modelled here, so a float is a
  real number, an infinity or NaN, and the comparisons are the IEEE ones: every comparison
  with NaN is false.
\<close>

datatype pyfloat = Num real | PosInf | NegInf | NaN

fun isnan :: "pyfloat \<Rightarrow> bool" where
  "isnan NaN = True"
| "isnan _ = False"

fun float_lt :: "pyfloat \<Rightarrow> pyfloat \<Rightarrow> bool" where
  "float_lt (Num a) (Num b) = (a < b)"
| "float_lt (Num a) PosInf = True"
| "float_lt NegInf (Num b) = True"
| "float_lt NegInf PosInf = True"
| "float_lt _ _ = False"

definition float_gt :: "pyfloat \<Rightarrow> pyfloat \<Rightarrow> bool" where
  "float_gt a b = float_lt b a"

fun float_le :: "pyfloat \<Rightarrow> pyfloat \<Rightarrow> bool" where
  "float_le NaN _ = False"
| "float_le _ NaN = False"
| "float_le a b = (\<not> float_lt b a)"

definition float_ge :: "pyfloat \<Rightarrow> pyfloat \<Rightarrow> bool" where
  "float_ge a b = float_le b a"

type_synonym ndarray = "pyfloat list"

text \<open>Exceptions are values; the string is the message or the key.\<close>

datatype error =
    ValueError string
  | TypeError string
  | KeyError string
  | OSError string

fun is_KeyError :: "error \<Rightarrow> bool" where
  "is_KeyError (KeyError _) = True"
| "is_KeyError _ = False"

fun is_ValueError :: "error \<Rightarrow> bool" where
  "is_ValueError (ValueError _) = True"
| "is_ValueError _ = False"

definition ebind :: "error + 'a \<Rightarrow> ('a \<Rightarrow> error + 'b) \<Rightarrow> error + 'b" where
  "ebind m f = (case m of Inl e \<Rightarrow> Inl e | Inr x \<Rightarrow> f x)"

text \<open>Decimal rendering of a natural number, as \<open>str\<close> and f-strings do.\<close>

definition digit_char :: "nat \<Rightarrow> char" where
  "digit_char d = char_of (48 + d)"

fun show_nat :: "nat \<Rightarrow> string" where
  "show_nat n = (if n < 10 then [digit_char n] else show_nat (n div 10) @ [digit_char (n mod 10)])"

declare show_nat.simps [simp del]

text \<open>
  What \<open>json.load\<close> returns and \<open>json.dump\<close> accepts. An object is an association list in
  insertion order, as a Python dict is.
\<close>

datatype json =
    JNull
  | JBool bool
  | JNum pyfloat
  | JStr string
  | JArr "json list"
  | JObj "(string \<times> json) list"

text \<open>Python truthiness, as \<open>if x:\<close> and \<open>x and y\<close> use it.\<close>

fun truthy :: "json \<Rightarrow> bool" where
  "truthy JNull = False"
| "truthy (JBool b) = b"
| "truthy (JNum x) = (x \<noteq> Num 0)"
| "truthy (JStr s) = (s \<noteq> [])"
| "truthy (JArr xs) = (xs \<noteq> [])"
| "truthy (JObj kvs) = (kvs \<noteq> [])"

text \<open>\<open>entry[key]\<close> with a string key: KeyError on a dict without it, TypeError on anything else.\<close>

fun getitem :: "json \<Rightarrow> string \<Rightarrow> error + json" where
  "getitem (JObj kvs) k = (case map_of kvs k of None \<Rightarrow> Inl (KeyError k) | Some v \<Rightarrow> Inr v)"
| "getitem _ k = Inl (TypeError ''not subscriptable by str'')"

text \<open>\<open>Path(x)\<close>: a string becomes a path, anything else raises TypeError.\<close>

fun as_path :: "json \<Rightarrow> error + string" where
  "as_path (JStr s) = Inr s"
| "as_path _ = Inl (TypeError ''expected str, bytes or os.PathLike object'')"

text \<open>\<open>result[key] = v\<close> on a loaded document.\<close>

fun setitem :: "json \<Rightarrow> string \<Rightarrow> json \<Rightarrow> error + json" where
  "setitem (JObj kvs) k v = Inr (JObj (AList.update k v kvs))"
| "setitem _ k v = Inl (TypeError ''object does not support item assignment'')"

primrec make_serializable :: "json \<Rightarrow> json" where
  "make_serializable JNull = JNull"
| "make_serializable (JBool b) = JBool b"
| "make_serializable (JNum x) = JNum x"
| "make_serializable (JStr s) = JStr s"
| "make_serializable (JArr xs) = JArr (map make_serializable xs)"
| "make_serializable (JObj kvs) = JObj (map (map_prod id make_serializable) kvs)"

section \<open>The result cache (src/core/cache\_manager.py)\<close>

text \<open>
  The cache directory is a map from paths to file contents. A file holds a JSON document or
  text that \<open>json.load\<close> rejects; payloads are JSON documents, and \<open>json.load\<close>
  returns the document that \<open>json.dump\<close> wrote (the encoding is the library's). Paths
  are compared as strings. Which I/O calls fail is chosen by the environment,
  not by the program: \<open>io\<close> says, path by path, whether a write fails (on \<open>open\<close>, leaving
  the file as it was, or inside \<open>json.dump\<close>, leaving it truncated), whether a read fails,
  and whether \<open>unlink\<close> fails.
\<close>

datatype fdata = JsonDoc json | Garbage

datatype wfault = WriteOk | OpenFails | DumpFails

record io =
  write_fault :: "string \<Rightarrow> wfault"
  read_fails :: "string \<Rightarrow> bool"
  unlink_fails :: "string \<Rightarrow> bool"

text \<open>
  \<open>datetime\<close> and \<open>hashlib\<close> are libraries: a naive datetime is its number of microseconds,
  \<open>fromisoformat\<close> may also return an offset-aware datetime, which a naive one cannot be
  subtracted from.
\<close>

datatype datetime = Naive int | Aware int

record pylib =
  fromisoformat :: "string \<Rightarrow> datetime option"
  isoformat :: "int \<Rightarrow> string"
  sha256_hexdigest :: "string \<Rightarrow> string"
  sorted_by_created_reverse :: "json list \<Rightarrow> error + json list"

record cache =
  cache_dir :: string
  ttl :: int
  entries :: "(string \<times> json) list"
  last_cleanup :: json
  files :: "string \<Rightarrow> fdata option"

definition test_results_dir :: "cache \<Rightarrow> string" where
  "test_results_dir c = cache_dir c @ ''/test_results''"

definition index_file :: "cache \<Rightarrow> string" where
  "index_file c = cache_dir c @ ''/index.json''"

definition index_json :: "cache \<Rightarrow> json" where
  "index_json c = JObj [(''entries'', JObj (entries c)), (''last_cleanup'', last_cleanup c)]"

text \<open>\<open>with open(p, 'w') as f: json.dump(doc, f)\<close>: the flag says whether it raised.\<close>

definition write_file ::
  "io \<Rightarrow> string \<Rightarrow> json \<Rightarrow> (string \<Rightarrow> fdata option) \<Rightarrow> bool \<times> (string \<Rightarrow> fdata option)" where
  "write_file i p doc fs =
     (case write_fault i p of
        WriteOk \<Rightarrow> (True, fs(p \<mapsto> JsonDoc doc))
      | OpenFails \<Rightarrow> (False, fs)
      | DumpFails \<Rightarrow> (False, fs(p \<mapsto> Garbage)))"

definition save_index :: "io \<Rightarrow> cache \<Rightarrow> cache" where
  "save_index i c = c\<lparr>files := snd (write_file i (index_file c) (index_json c) (files c))\<rparr>"

definition generate_test_id :: "pylib \<Rightarrow> int \<Rightarrow> nat \<Rightarrow> string \<Rightarrow> string" where
  "generate_test_id L now ident test_type =
     take 16 (sha256_hexdigest L (test_type @ ''_'' @ isoformat L now @ ''_'' @ show_nat ident))"

text \<open>
  The index entry that \<open>cache_result\<close> inserts: \<open>has_raw_data\<close> says that raw data
  was passed, \<open>data_file\<close> is set only when the raw data is truthy and so was written.
\<close>

definition written_entry ::
  "pylib \<Rightarrow> cache \<Rightarrow> string \<Rightarrow> int \<Rightarrow> string \<Rightarrow> json option \<Rightarrow> json" where
  "written_entry L c test_id now_created test_type raw_data =
     JObj [(''test_type'', JStr test_type),
           (''created'', JStr (isoformat L now_created)),
           (''has_raw_data'', JBool (raw_data \<noteq> None)),
           (''result_file'', JStr (test_results_dir c @ ''/'' @ test_id @ ''.json'')),
           (''data_file'', if raw_data \<noteq> None \<and> truthy (the raw_data)
                           then JStr (test_results_dir c @ ''/'' @ test_id @ ''_data.json'')
                           else JNull)]"

text \<open>
  \<open>cache_result\<close>: \<open>now_id\<close> and \<open>now_created\<close> are the two readings of the clock,
  \<open>ident\<close> is \<open>id(params)\<close>. Every I/O error inside the \<open>try\<close> gives the sentinel.
\<close>

definition cache_result ::
  "pylib \<Rightarrow> io \<Rightarrow> int \<Rightarrow> int \<Rightarrow> nat \<Rightarrow> string \<Rightarrow> json \<Rightarrow> json option \<Rightarrow> cache \<Rightarrow> string \<times> cache" where
  "cache_result L i now_id now_created ident test_type test_result raw_data c =
     (let test_id = generate_test_id L now_id ident test_type;
          result_file = test_results_dir c @ ''/'' @ test_id @ ''.json'';
          (ok1, fs1) = write_file i result_file test_result (files c)
      in if \<not> ok1 then (''cache_error_'' @ test_id, c\<lparr>files := fs1\<rparr>)
         else
           let data_file = test_results_dir c @ ''/'' @ test_id @ ''_data.json'';
               (ok2, fs2) =
                 (case raw_data of
                    None \<Rightarrow> (True, fs1)
                  | Some d \<Rightarrow> if truthy d then write_file i data_file (make_serializable d) fs1
                              else (True, fs1))
           in if \<not> ok2 then (''cache_error_'' @ test_id, c\<lparr>files := fs2\<rparr>)
              else
                let entry = written_entry L c test_id now_created test_type raw_data
                in (test_id,
                    save_index i (c\<lparr>files := fs2, entries := AList.update test_id entry (entries c)\<rparr>)))"

text \<open>
  \<open>get_result\<close>: the \<open>except\<close> clause catches I/O and JSON decoding errors only, so a
  malformed index entry raises. The cache is returned with the result.
\<close>

definition load_file :: "io \<Rightarrow> (string \<Rightarrow> fdata option) \<Rightarrow> string \<Rightarrow> json option" where
  "load_file i fs p =
     (if read_fails i p then None
      else (case fs p of Some (JsonDoc d) \<Rightarrow> Some d | _ \<Rightarrow> None))"

definition get_result ::
  "io \<Rightarrow> string \<Rightarrow> bool \<Rightarrow> cache \<Rightarrow> (error + json option) \<times> cache" where
  "get_result i test_id include_raw_data c =
     (case map_of (entries c) test_id of
        None \<Rightarrow> (Inr None, c)
      | Some entry \<Rightarrow>
          (case ebind (getitem entry ''result_file'') as_path of
             Inl e \<Rightarrow> (Inl e, c)
           | Inr result_file \<Rightarrow>
               if files c result_file = None then (Inr None, c)
               else
                 (case load_file i (files c) result_file of
                    None \<Rightarrow> (Inr None, c)
                  | Some result \<Rightarrow>
                      if \<not> include_raw_data then (Inr (Some result), c)
                      else
                        (case getitem entry ''has_raw_data'' of
                           Inl e \<Rightarrow> (Inl e, c)
                         | Inr h \<Rightarrow>
                             if \<not> truthy h then (Inr (Some result), c)
                             else
                               (case getitem entry ''data_file'' of
                                  Inl e \<Rightarrow> (Inl e, c)
                                | Inr dv \<Rightarrow>
                                    if \<not> truthy dv then (Inr (Some result), c)
                                    else
                                      (case as_path dv of
                                         Inl e \<Rightarrow> (Inl e, c)
                                       | Inr data_file \<Rightarrow>
                                           if files c data_file = None then (Inr (Some result), c)
                                           else
                                             (case load_file i (files c) data_file of
                                                None \<Rightarrow> (Inr None, c)
                                              | Some raw \<Rightarrow>
                                                  (case setitem result ''raw_data'' raw of
                                                     Inl e \<Rightarrow> (Inl e, c)
                                                   | Inr r \<Rightarrow> (Inr (Some r), c)))))))))"

text \<open>
  The \<open>try\<close> block of \<open>delete_result\<close>: an OSError from \<open>unlink\<close> is caught and ends the
  block; a KeyError or TypeError from a malformed entry is not caught.
\<close>

definition delete_entry_files ::
  "io \<Rightarrow> json \<Rightarrow> (string \<Rightarrow> fdata option) \<Rightarrow> error option \<times> (string \<Rightarrow> fdata option)" where
  "delete_entry_files i entry fs =
     (case ebind (getitem entry ''result_file'') as_path of
        Inl e \<Rightarrow> (Some e, fs)
      | Inr result_file \<Rightarrow>
          if fs result_file \<noteq> None \<and> unlink_fails i result_file then (None, fs)
          else
            let fs1 = (if fs result_file \<noteq> None then fs(result_file := None) else fs)
            in (case getitem entry ''has_raw_data'' of
                  Inl e \<Rightarrow> (Some e, fs1)
                | Inr h \<Rightarrow>
                    if \<not> truthy h then (None, fs1)
                    else
                      (case getitem entry ''data_file'' of
                         Inl e \<Rightarrow> (Some e, fs1)
                       | Inr dv \<Rightarrow>
                           if \<not> truthy dv then (None, fs1)
                           else
                             (case as_path dv of
                                Inl e \<Rightarrow> (Some e, fs1)
                              | Inr data_file \<Rightarrow>
                                  if fs1 data_file = None then (None, fs1)
                                  else if unlink_fails i data_file then (None, fs1)
                                  else (None, fs1(data_file := None))))))"

definition delete_result :: "io \<Rightarrow> string \<Rightarrow> cache \<Rightarrow> error option \<times> cache" where
  "delete_result i test_id c =
     (case map_of (entries c) test_id of
        None \<Rightarrow> (None, c)
      | Some entry \<Rightarrow>
          (case delete_entry_files i entry (files c) of
             (Some e, fs) \<Rightarrow> (Some e, c\<lparr>files := fs\<rparr>)
           | (None, fs) \<Rightarrow>
               (None, save_index i (c\<lparr>files := fs, entries := AList.delete test_id (entries c)\<rparr>))))"

text \<open>
  The expiry sweep. The first loop reads every entry's \<open>created\<close> field; a KeyError or
  ValueError marks the entry as expired, any other exception leaves the loop.
\<close>

definition entry_age_exceeds :: "pylib \<Rightarrow> int \<Rightarrow> int \<Rightarrow> json \<Rightarrow> error + bool" where
  "entry_age_exceeds L current_time t entry =
     (case getitem entry ''created'' of
        Inl e \<Rightarrow> Inl e
      | Inr (JStr s) \<Rightarrow>
          (case fromisoformat L s of
             None \<Rightarrow> Inl (ValueError ''Invalid isoformat string'')
           | Some (Naive created) \<Rightarrow> Inr (current_time - created > t)
           | Some (Aware created) \<Rightarrow>
               Inl (TypeError ''can't subtract offset-naive and offset-aware datetimes''))
      | Inr _ \<Rightarrow> Inl (TypeError ''fromisoformat: argument must be str''))"

definition is_expired :: "pylib \<Rightarrow> int \<Rightarrow> int \<Rightarrow> json \<Rightarrow> error + bool" where
  "is_expired L current_time t entry =
     (case entry_age_exceeds L current_time t entry of
        Inl e \<Rightarrow> if is_KeyError e \<or> is_ValueError e then Inr True else Inl e
      | Inr b \<Rightarrow> Inr b)"

fun expired_ids :: "pylib \<Rightarrow> int \<Rightarrow> int \<Rightarrow> (string \<times> json) list \<Rightarrow> error + string list" where
  "expired_ids L current_time t [] = Inr []"
| "expired_ids L current_time t ((test_id, entry) # rest) =
     (case is_expired L current_time t entry of
        Inl e \<Rightarrow> Inl e
      | Inr b \<Rightarrow>
          (case expired_ids L current_time t rest of
             Inl e \<Rightarrow> Inl e
           | Inr ids \<Rightarrow> Inr (if b then test_id # ids else ids)))"

fun delete_all :: "io \<Rightarrow> string list \<Rightarrow> cache \<Rightarrow> error option \<times> cache" where
  "delete_all i [] c = (None, c)"
| "delete_all i (test_id # ids) c =
     (case delete_result i test_id c of
        (Some e, c') \<Rightarrow> (Some e, c')
      | (None, c') \<Rightarrow> delete_all i ids c')"

definition cleanup_expired :: "pylib \<Rightarrow> io \<Rightarrow> int \<Rightarrow> cache \<Rightarrow> error option \<times> cache" where
  "cleanup_expired L i current_time c =
     (case expired_ids L current_time (ttl c) (entries c) of
        Inl e \<Rightarrow> (Some e, c)
      | Inr ids \<Rightarrow>
          (case delete_all i ids c of
             (Some e, c') \<Rightarrow> (Some e, c')
           | (None, c') \<Rightarrow>
               (None, save_index i (c'\<lparr>last_cleanup := JStr (isoformat L current_time)\<rparr>))))"

text \<open>\<open>list_cached_tests\<close>: the comprehension raises on a malformed entry; the sort is Python's.\<close>

definition test_summary :: "string \<Rightarrow> json \<Rightarrow> error + json" where
  "test_summary test_id entry =
     ebind (getitem entry ''test_type'') (\<lambda>tt.
     ebind (getitem entry ''created'') (\<lambda>cr.
     ebind (getitem entry ''has_raw_data'') (\<lambda>h.
       Inr (JObj [(''test_id'', JStr test_id), (''test_type'', tt),
                  (''created'', cr), (''has_raw_data'', h)]))))"

fun test_summaries :: "(string \<times> json) list \<Rightarrow> error + json list" where
  "test_summaries [] = Inr []"
| "test_summaries ((test_id, entry) # rest) =
     ebind (test_summary test_id entry) (\<lambda>s.
     ebind (test_summaries rest) (\<lambda>ss. Inr (s # ss)))"

definition list_cached_tests :: "pylib \<Rightarrow> cache \<Rightarrow> (error + json list) \<times> cache" where
  "list_cached_tests L c =
     (ebind (test_summaries (entries c)) (sorted_by_created_reverse L), c)"

text \<open>
  Notions the cache properties are stated with. An index entry refers to a path when its
  \<open>result_file\<close> or \<open>data_file\<close> field holds it: those are the files that
  \<open>delete_result\<close> unlinks for the entry.
\<close>

definition refers_to :: "json \<Rightarrow> string \<Rightarrow> bool" where
  "refers_to entry p =
     (getitem entry ''result_file'' = Inr (JStr p) \<or> getitem entry ''data_file'' = Inr (JStr p))"

text \<open>
  Python's \<open>==\<close> on two JSON values that are different objects, as a written payload and
  the document loaded from its file are: floats compare as IEEE floats, so NaN equals
  nothing, \<open>True\<close> and \<open>False\<close> equal 1 and 0, lists compare element by element, and
  dictionaries by keys and values, whatever the order.
\<close>

fun float_eq :: "pyfloat \<Rightarrow> pyfloat \<Rightarrow> bool" where
  "float_eq (Num a) (Num b) = (a = b)"
| "float_eq PosInf PosInf = True"
| "float_eq NegInf NegInf = True"
| "float_eq _ _ = False"

fun nan_free :: "json \<Rightarrow> bool" where
  "nan_free (JNum x) = (\<not> isnan x)"
| "nan_free (JArr xs) = list_all nan_free xs"
| "nan_free (JObj kvs) = list_all (\<lambda>(k, v). nan_free v) kvs"
| "nan_free _ = True"

function py_eq :: "json \<Rightarrow> json \<Rightarrow> bool" where
  "py_eq JNull JNull = True"
| "py_eq (JBool a) (JBool b) = (a = b)"
| "py_eq (JBool a) (JNum y) = float_eq (Num (if a then 1 else 0)) y"
| "py_eq (JNum x) (JBool b) = float_eq x (Num (if b then 1 else 0))"
| "py_eq (JNum x) (JNum y) = float_eq x y"
| "py_eq (JStr s) (JStr t) = (s = t)"
| "py_eq (JArr xs) (JArr ys) = list_all2 py_eq xs ys"
| "py_eq (JObj kvs) (JObj kvs') =
     (fst ` set kvs = fst ` set kvs' \<and>
      list_all (\<lambda>k. case map_of kvs k of
                       None \<Rightarrow> False
                     | Some v \<Rightarrow> (case map_of kvs' k of None \<Rightarrow> False | Some v' \<Rightarrow> py_eq v v'))
        (map fst kvs))"
| "py_eq JNull (JBool b) = False"
| "py_eq JNull (JNum y) = False"
| "py_eq JNull (JStr t) = False"
| "py_eq JNull (JArr ys) = False"
| "py_eq JNull (JObj kvs') = False"
| "py_eq (JBool a) JNull = False"
| "py_eq (JBool a) (JStr t) = False"
| "py_eq (JBool a) (JArr ys) = False"
| "py_eq (JBool a) (JObj kvs') = False"
| "py_eq (JNum x) JNull = False"
| "py_eq (JNum x) (JStr t) = False"
| "py_eq (JNum x) (JArr ys) = False"
| "py_eq (JNum x) (JObj kvs') = False"
| "py_eq (JStr s) JNull = False"
| "py_eq (JStr s) (JBool b) = False"
| "py_eq (JStr s) (JNum y) = False"
| "py_eq (JStr s) (JArr ys) = False"
| "py_eq (JStr s) (JObj kvs') = False"
| "py_eq (JArr xs) JNull = False"
| "py_eq (JArr xs) (JBool b) = False"
| "py_eq (JArr xs) (JNum y) = False"
| "py_eq (JArr xs) (JStr t) = False"
| "py_eq (JArr xs) (JObj kvs') = False"
| "py_eq (JObj kvs) JNull = False"
| "py_eq (JObj kvs) (JBool b) = False"
| "py_eq (JObj kvs) (JNum y) = False"
| "py_eq (JObj kvs) (JStr t) = False"
| "py_eq (JObj kvs) (JArr ys) = False"
  by pat_completeness auto

termination py_eq
  apply (relation "measure (\<lambda>(a, b). size a)")
    apply simp
   apply (simp add: less_Suc_eq_le size_list_estimation')
  subgoal for kvs kvs' k v v'
    by (induction kvs) (auto split: if_splits)
  done

section \<open>Test strategies (src/tests) and the pipeline (src/core/base\_test.py)\<close>

datatype strategy =
    OneSampleTTest
  | TwoSampleTTest
  | PairedTTest
  | OneWayANOVA
  | MannWhitneyUTest
  | WilcoxonSignedRankTest
  | KruskalWallisTest
  | ShapiroWilkTest
  | KolmogorovSmirnovTest
  | AndersonDarlingTest
  | JarqueBeraTest
  | LeveneTest
  | BartlettTest
  | FTestVariance

text \<open>\<open>self.test_type().value\<close>\<close>

fun test_type_value :: "strategy \<Rightarrow> string" where
  "test_type_value OneSampleTTest = ''one_sample_t_test''"
| "test_type_value TwoSampleTTest = ''two_sample_t_test''"
| "test_type_value PairedTTest = ''paired_t_test''"
| "test_type_value OneWayANOVA = ''one_way_anova''"
| "test_type_value MannWhitneyUTest = ''mann_whitney_u''"
| "test_type_value WilcoxonSignedRankTest = ''wilcoxon_signed_rank''"
| "test_type_value KruskalWallisTest = ''kruskal_wallis''"
| "test_type_value ShapiroWilkTest = ''shapiro_wilk''"
| "test_type_value KolmogorovSmirnovTest = ''kolmogorov_smirnov''"
| "test_type_value AndersonDarlingTest = ''anderson_darling''"
| "test_type_value JarqueBeraTest = ''jarque_bera''"
| "test_type_value LeveneTest = ''levene''"
| "test_type_value BartlettTest = ''bartlett''"
| "test_type_value FTestVariance = ''f_test_variance''"

text \<open>
  The numerical procedures are scipy's and numpy's. \<open>shapiro\<close> and \<open>levene\<close> return
  \<open>(statistic, p_value)\<close> or raise; \<open>fsub\<close> is the subtraction of two floats;
  \<open>iqr_bounds\<close> gives the two fences \<open>q1 - 1.5 * iqr\<close> and \<open>q3 + 1.5 * iqr\<close> of a sample.
\<close>

record stats_lib =
  shapiro :: "ndarray \<Rightarrow> error + (pyfloat \<times> pyfloat)"
  levene :: "ndarray list \<Rightarrow> error + (pyfloat \<times> pyfloat)"
  fsub :: "pyfloat \<Rightarrow> pyfloat \<Rightarrow> pyfloat"
  iqr_bounds :: "ndarray \<Rightarrow> error + (pyfloat \<times> pyfloat)"

text \<open>
  The methods of a strategy that only compute or format numbers are parameters too:
  they delegate to the procedure library and to float formatting.
\<close>

record procedures =
  compute_statistic :: "strategy \<Rightarrow> ndarray list \<Rightarrow> error + (pyfloat \<times> pyfloat)"
  interpret_result :: "strategy \<Rightarrow> pyfloat \<Rightarrow> pyfloat \<Rightarrow> ndarray list \<Rightarrow> string"
  calculate_effect_size :: "strategy \<Rightarrow> ndarray list \<Rightarrow> pyfloat option"
  calculate_confidence_interval :: "strategy \<Rightarrow> ndarray list \<Rightarrow> (pyfloat \<times> pyfloat) option"
  get_null_hypothesis :: "strategy \<Rightarrow> string"
  get_alternative_hypothesis :: "strategy \<Rightarrow> string"

text \<open>Calling a method with the wrong number of positional arguments raises TypeError.\<close>

fun with1 :: "(ndarray \<Rightarrow> error + 'a) \<Rightarrow> ndarray list \<Rightarrow> error + 'a" where
  "with1 f [data] = f data"
| "with1 f _ = Inl (TypeError ''takes 2 positional arguments'')"

fun with2 :: "(ndarray \<Rightarrow> ndarray \<Rightarrow> error + 'a) \<Rightarrow> ndarray list \<Rightarrow> error + 'a" where
  "with2 f [a, b] = f a b"
| "with2 f _ = Inl (TypeError ''takes 3 positional arguments'')"

definition has_nan :: "ndarray \<Rightarrow> bool" where
  "has_nan data = list_ex isnan data"

text \<open>The loop of the k-group validators, with the minimum length of a group \<open>m\<close>.\<close>

definition validate_groups :: "nat \<Rightarrow> ndarray list \<Rightarrow> bool" where
  "validate_groups m groups =
     (if length groups < 2 then False
      else list_all (\<lambda>grp. \<not> (length grp < m \<or> has_nan grp)) groups)"

fun validate_input :: "strategy \<Rightarrow> ndarray list \<Rightarrow> error + bool" where
  "validate_input OneSampleTTest args =
     with1 (\<lambda>data. Inr (length data > 1 \<and> \<not> has_nan data)) args"
| "validate_input TwoSampleTTest args =
     with2 (\<lambda>group1 group2. Inr (length group1 > 1 \<and> length group2 > 1 \<and>
                                   \<not> has_nan group1 \<and> \<not> has_nan group2)) args"
| "validate_input PairedTTest args =
     with2 (\<lambda>before after. Inr (length before = length after \<and> length before > 1 \<and>
                                 \<not> has_nan before \<and> \<not> has_nan after)) args"
| "validate_input OneWayANOVA args = Inr (validate_groups 2 args)"
| "validate_input MannWhitneyUTest args =
     with2 (\<lambda>group1 group2. Inr (length group1 > 0 \<and> length group2 > 0 \<and>
                                   \<not> has_nan group1 \<and> \<not> has_nan group2)) args"
| "validate_input WilcoxonSignedRankTest args =
     with2 (\<lambda>before after. Inr (length before = length after \<and> length before > 0 \<and>
                                 \<not> has_nan before \<and> \<not> has_nan after)) args"
| "validate_input KruskalWallisTest args = Inr (validate_groups 1 args)"
| "validate_input ShapiroWilkTest args =
     with1 (\<lambda>data. Inr (length data \<ge> 3 \<and> length data \<le> 5000 \<and> \<not> has_nan data)) args"
| "validate_input KolmogorovSmirnovTest args =
     with1 (\<lambda>data. Inr (length data \<ge> 5 \<and> \<not> has_nan data)) args"
| "validate_input AndersonDarlingTest args =
     with1 (\<lambda>data. Inr (length data \<ge> 7 \<and> \<not> has_nan data)) args"
| "validate_input JarqueBeraTest args =
     with1 (\<lambda>data. Inr (length data \<ge> 7 \<and> \<not> has_nan data)) args"
| "validate_input LeveneTest args = Inr (validate_groups 2 args)"
| "validate_input BartlettTest args = Inr (validate_groups 2 args)"
| "validate_input FTestVariance args =
     with2 (\<lambda>group1 group2. Inr (length group1 \<ge> 2 \<and> length group2 \<ge> 2 \<and>
                                   \<not> has_nan group1 \<and> \<not> has_nan group2)) args"

text \<open>\<open>_, p = stats.shapiro(x) if len(x) < 5000 else (0, 1)\<close>\<close>

definition shapiro_p :: "stats_lib \<Rightarrow> ndarray \<Rightarrow> error + pyfloat" where
  "shapiro_p S x =
     (if length x < 5000 then ebind (shapiro S x) (\<lambda>(w, p). Inr p) else Inr (Num 1))"

text \<open>The normality loop of the one-way ANOVA, which stops at the first sample that fails.\<close>

fun anova_all_normal :: "stats_lib \<Rightarrow> ndarray list \<Rightarrow> error + bool" where
  "anova_all_normal S [] = Inr True"
| "anova_all_normal S (grp # groups) =
     (if length grp < 5000 then
        ebind (shapiro S grp) (\<lambda>(w, p_norm).
          if float_le p_norm (Num 0.05) \<and> length grp \<le> 30 then Inr False
          else anova_all_normal S groups)
      else anova_all_normal S groups)"

fun bartlett_all_normal :: "stats_lib \<Rightarrow> ndarray list \<Rightarrow> error + bool" where
  "bartlett_all_normal S [] = Inr True"
| "bartlett_all_normal S (grp # groups) =
     (if length grp < 5000 then
        ebind (shapiro S grp) (\<lambda>(w, p_norm).
          if float_le p_norm (Num 0.05) then Inr False
          else bartlett_all_normal S groups)
      else bartlett_all_normal S groups)"

text \<open>\<open>after - before\<close> on two arrays of the same length.\<close>

definition array_sub :: "stats_lib \<Rightarrow> ndarray \<Rightarrow> ndarray \<Rightarrow> ndarray" where
  "array_sub S a b = map2 (fsub S) a b"

text \<open>The dictionary of assumption checks, in the order the keys are inserted.\<close>

fun check_assumptions :: "stats_lib \<Rightarrow> strategy \<Rightarrow> ndarray list \<Rightarrow> error + (string \<times> bool) list" where
  "check_assumptions S OneSampleTTest args =
     with1 (\<lambda>data.
       ebind (if length data < 5000
              then ebind (shapiro S data) (\<lambda>(w, p_norm). Inr (float_gt p_norm (Num 0.05)))
              else Inr True) (\<lambda>is_normal.
       Inr [(''normality'', is_normal \<or> length data > 30),
            (''independence'', True),
            (''sufficient_sample_size'', length data \<ge> 2)])) args"
| "check_assumptions S TwoSampleTTest args =
     with2 (\<lambda>group1 group2.
       ebind (shapiro_p S group1) (\<lambda>p1.
       ebind (shapiro_p S group2) (\<lambda>p2.
       ebind (levene S [group1, group2]) (\<lambda>(w, p_levene).
       Inr [(''group1_normality'', float_gt p1 (Num 0.05) \<or> length group1 > 30),
            (''group2_normality'', float_gt p2 (Num 0.05) \<or> length group2 > 30),
            (''equal_variances'', float_gt p_levene (Num 0.05)),
            (''independence'', True)])))) args"
| "check_assumptions S PairedTTest args =
     with2 (\<lambda>before after.
       let differences = array_sub S after before in
       ebind (shapiro_p S differences) (\<lambda>p_norm.
       Inr [(''differences_normality'', float_gt p_norm (Num 0.05) \<or> length differences > 30),
            (''paired_data'', length before = length after),
            (''independence'', True)])) args"
| "check_assumptions S OneWayANOVA args =
     ebind (anova_all_normal S args) (\<lambda>all_normal.
     ebind (if length args \<ge> 2
            then ebind (levene S args) (\<lambda>(w, p_levene). Inr (float_gt p_levene (Num 0.05)))
            else Inr True) (\<lambda>equal_variances.
     Inr [(''independence'', True),
          (''sufficient_groups'', length args \<ge> 2),
          (''normality'', all_normal),
          (''equal_variances'', equal_variances)]))"
| "check_assumptions S MannWhitneyUTest args =
     with2 (\<lambda>group1 group2.
       Inr [(''independence'', True),
            (''ordinal_or_continuous'', True),
            (''sufficient_sample_size'', length group1 \<ge> 3 \<and> length group2 \<ge> 3)]) args"
| "check_assumptions S WilcoxonSignedRankTest args =
     with2 (\<lambda>before after.
       let differences = array_sub S after before;
           non_zero_diffs = filter (\<lambda>d. d \<noteq> Num 0) differences in
       Inr [(''paired_data'', length before = length after),
            (''ordinal_or_continuous'', True),
            (''sufficient_non_zero_differences'', length non_zero_diffs \<ge> 5)]) args"
| "check_assumptions S KruskalWallisTest args =
     Inr [(''independence'', True),
          (''ordinal_or_continuous'', True),
          (''sufficient_groups'', length args \<ge> 2),
          (''sufficient_sample_size'', list_all (\<lambda>g. length g \<ge> 5) args)]"
| "check_assumptions S ShapiroWilkTest args =
     with1 (\<lambda>data.
       Inr [(''sufficient_sample_size'', 3 \<le> length data \<and> length data \<le> 5000),
            (''no_missing_values'', \<not> has_nan data)]) args"
| "check_assumptions S KolmogorovSmirnovTest args =
     with1 (\<lambda>data.
       Inr [(''sufficient_sample_size'', length data \<ge> 5),
            (''continuous_data'', True)]) args"
| "check_assumptions S AndersonDarlingTest args =
     with1 (\<lambda>data.
       Inr [(''sufficient_sample_size'', length data \<ge> 7),
            (''continuous_data'', True)]) args"
| "check_assumptions S JarqueBeraTest args =
     with1 (\<lambda>data.
       Inr [(''sufficient_sample_size'', length data \<ge> 7),
            (''works_best_large_n'', length data > 2000)]) args"
| "check_assumptions S LeveneTest args =
     Inr [(''sufficient_groups'', length args \<ge> 2),
          (''sufficient_sample_size'', list_all (\<lambda>g. length g \<ge> 2) args),
          (''continuous_data'', True)]"
| "check_assumptions S BartlettTest args =
     ebind (bartlett_all_normal S args) (\<lambda>all_normal.
     Inr [(''sufficient_groups'', length args \<ge> 2),
          (''sufficient_sample_size'', list_all (\<lambda>g. length g \<ge> 2) args),
          (''normality'', all_normal)])"
| "check_assumptions S FTestVariance args =
     with2 (\<lambda>group1 group2.
       ebind (shapiro_p S group1) (\<lambda>p1.
       ebind (shapiro_p S group2) (\<lambda>p2.
       Inr [(''group1_normality'', float_gt p1 (Num 0.05)),
            (''group2_normality'', float_gt p2 (Num 0.05)),
            (''sufficient_sample_size'', length group1 \<ge> 2 \<and> length group2 \<ge> 2)]))) args"

text \<open>\<open>', '.join(names)\<close>\<close>

fun join_comma :: "string list \<Rightarrow> string" where
  "join_comma [] = []"
| "join_comma [x] = x"
| "join_comma (x # y # ys) = x @ '', '' @ join_comma (y # ys)"

definition unmet_assumptions :: "(string \<times> bool) list \<Rightarrow> string list" where
  "unmet_assumptions assumptions = map fst (filter (\<lambda>(k, v). \<not> v) assumptions)"

definition assumption_warning :: "string list \<Rightarrow> string" where
  "assumption_warning unmet =
     '' WARNING: Assumptions not met: '' @ join_comma unmet @
     ''. Consider non-parametric alternatives.''"

text \<open>\<open>BaseHypothesisTest.generate_recommendation\<close>\<close>

definition base_recommendation :: "string \<Rightarrow> (string \<times> bool) list \<Rightarrow> string" where
  "base_recommendation decision assumptions =
     (let unmet = unmet_assumptions assumptions;
          warning = (if unmet \<noteq> [] then assumption_warning unmet else [])
      in if decision = ''reject''
         then ''Evidence suggests a significant effect. Consider practical significance and collect more data to confirm.'' @ warning
         else ''Insufficient evidence to conclude an effect. Consider increasing sample size or effect size.'' @ warning)"

text \<open>\<open>assumptions.get(key, True)\<close>\<close>

definition get_default_true :: "(string \<times> bool) list \<Rightarrow> string \<Rightarrow> bool" where
  "get_default_true assumptions k = (case map_of assumptions k of None \<Rightarrow> True | Some v \<Rightarrow> v)"

fun generate_recommendation :: "strategy \<Rightarrow> string \<Rightarrow> (string \<times> bool) list \<Rightarrow> string" where
  "generate_recommendation ShapiroWilkTest decision assumptions =
     (if decision = ''reject''
      then ''Data violates normality assumption. Recommendations: (1) Use non-parametric alternatives, (2) Transform data (log, sqrt), (3) Increase sample size (n > 30) for CLT to apply.''
      else ''Data meets normality assumption. Parametric tests are appropriate.'')"
| "generate_recommendation LeveneTest decision assumptions =
     (if decision = ''reject''
      then ''Variances differ significantly. Recommendations: (1) Use Welch's t-test (unequal variances), (2) Use Welch's ANOVA, (3) Transform data (log, sqrt) to stabilize variance, (4) Use non-parametric tests.''
      else ''Equal variance assumption met. Standard parametric tests are appropriate.'')"
| "generate_recommendation BartlettTest decision assumptions =
     (let base_rec = base_recommendation decision assumptions
      in if \<not> get_default_true assumptions ''normality''
         then ''WARNING: Bartlett's test requires normality. Data may not be normal. Use Levene's test instead (more robust). '' @ base_rec
         else base_rec)"
| "generate_recommendation FTestVariance decision assumptions =
     (let base_rec = base_recommendation decision assumptions
      in if \<not> get_default_true assumptions ''group1_normality'' \<or>
            \<not> get_default_true assumptions ''group2_normality''
         then ''WARNING: F-test requires normality. Use Levene's test instead (more robust). '' @ base_rec
         else base_rec)"
| "generate_recommendation KruskalWallisTest decision assumptions =
     (let base_rec = base_recommendation decision assumptions
      in if decision = ''reject''
         then base_rec @ '' Consider post-hoc pairwise comparisons (Dunn's test) to identify which groups differ.''
         else base_rec)"
| "generate_recommendation OneWayANOVA decision assumptions =
     (let base_rec = base_recommendation decision assumptions;
          base_rec1 = (if decision = ''reject''
                       then base_rec @ '' Consider post-hoc tests (Tukey HSD, Bonferroni) to identify which specific groups differ.''
                       else base_rec)
      in if \<not> get_default_true assumptions ''equal_variances''
         then base_rec1 @ '' WARNING: Equal variance assumption violated. Consider Welch's ANOVA or Kruskal-Wallis test.''
         else base_rec1)"
| "generate_recommendation _ decision assumptions = base_recommendation decision assumptions"

text \<open>\<open>get_test_name\<close>: \<open>value.replace('_', ' ').title()\<close> on an ASCII identifier.\<close>

definition is_lower :: "char \<Rightarrow> bool" where
  "is_lower c = (97 \<le> (of_char c :: nat) \<and> (of_char c :: nat) \<le> 122)"

definition is_upper :: "char \<Rightarrow> bool" where
  "is_upper c = (65 \<le> (of_char c :: nat) \<and> (of_char c :: nat) \<le> 90)"

definition to_upper :: "char \<Rightarrow> char" where
  "to_upper c = (if is_lower c then char_of ((of_char c :: nat) - 32) else c)"

definition to_lower :: "char \<Rightarrow> char" where
  "to_lower c = (if is_upper c then char_of ((of_char c :: nat) + 32) else c)"

fun title_from :: "bool \<Rightarrow> string \<Rightarrow> string" where
  "title_from prev_cased [] = []"
| "title_from prev_cased (c # cs) =
     (if is_lower c \<or> is_upper c
      then (if prev_cased then to_lower c else to_upper c) # title_from True cs
      else c # title_from False cs)"

definition get_test_name :: "strategy \<Rightarrow> string" where
  "get_test_name s =
     title_from False (map (\<lambda>c. if c = CHR ''_'' then CHR '' '' else c) (test_type_value s))"

text \<open>\<open>{f"group_{i+1}": len(group) for i, group in enumerate(groups)}\<close>\<close>

definition group_sizes :: "ndarray list \<Rightarrow> (string \<times> nat) list" where
  "group_sizes groups =
     map (\<lambda>(i, g). (''group_'' @ show_nat (i + 1), length g)) (enumerate 0 groups)"

fun get_sample_sizes :: "strategy \<Rightarrow> ndarray list \<Rightarrow> error + (string \<times> nat) list option" where
  "get_sample_sizes OneSampleTTest args = with1 (\<lambda>data. Inr (Some [(''n'', length data)])) args"
| "get_sample_sizes TwoSampleTTest args =
     with2 (\<lambda>group1 group2. Inr (Some [(''group1'', length group1), (''group2'', length group2)])) args"
| "get_sample_sizes PairedTTest args =
     with2 (\<lambda>before after. Inr (Some [(''n_pairs'', length before)])) args"
| "get_sample_sizes OneWayANOVA args = Inr (Some (group_sizes args))"
| "get_sample_sizes MannWhitneyUTest args =
     with2 (\<lambda>group1 group2. Inr (Some [(''group1'', length group1), (''group2'', length group2)])) args"
| "get_sample_sizes WilcoxonSignedRankTest args =
     with2 (\<lambda>before after. Inr (Some [(''n_pairs'', length before)])) args"
| "get_sample_sizes KruskalWallisTest args = Inr (Some (group_sizes args))"
| "get_sample_sizes ShapiroWilkTest args = with1 (\<lambda>data. Inr (Some [(''n'', length data)])) args"
| "get_sample_sizes KolmogorovSmirnovTest args = with1 (\<lambda>data. Inr (Some [(''n'', length data)])) args"
| "get_sample_sizes AndersonDarlingTest args = with1 (\<lambda>data. Inr (Some [(''n'', length data)])) args"
| "get_sample_sizes JarqueBeraTest args = with1 (\<lambda>data. Inr (Some [(''n'', length data)])) args"
| "get_sample_sizes LeveneTest args = Inr (Some (group_sizes args))"
| "get_sample_sizes BartlettTest args = Inr (Some (group_sizes args))"
| "get_sample_sizes FTestVariance args =
     with2 (\<lambda>group1 group2. Inr (Some [(''group1'', length group1), (''group2'', length group2)])) args"

record TestResult =
  test_name :: string
  test_type :: string
  statistic :: pyfloat
  p_value :: pyfloat
  alpha :: pyfloat
  significant :: bool
  null_hypothesis :: string
  alternative_hypothesis :: string
  decision :: string
  interpretation_text :: string
  recommendation :: string
  effect_size :: "pyfloat option"
  confidence_interval :: "(pyfloat \<times> pyfloat) option"
  power_opt :: "pyfloat option"
  sample_sizes :: "(string \<times> nat) list option"
  assumptions_met :: "(string \<times> bool) list option"
  warnings :: "string list option"
  cache_id :: "string option"

text \<open>The readings of the clock and the object identity that one cache write consumes.\<close>

record clock =
  id_time :: int
  created_time :: int
  params_id :: nat

text \<open>
  \<open>cache_detailed_results\<close>: the payload is the keyword dictionary, which holds the
  statistic and the p-value; without a cache manager nothing is written.
\<close>

definition cache_detailed_results ::
  "pylib \<Rightarrow> io \<Rightarrow> clock \<Rightarrow> strategy \<Rightarrow> pyfloat \<Rightarrow> pyfloat \<Rightarrow> cache option \<Rightarrow> string option \<times> cache option" where
  "cache_detailed_results L i k s stat p cm =
     (case cm of
        None \<Rightarrow> (None, None)
      | Some c \<Rightarrow>
          (case cache_result L i (id_time k) (created_time k) (params_id k) (test_type_value s)
                  (JObj [(''statistic'', JNum stat), (''p_value'', JNum p)]) None c of
             (cid, c') \<Rightarrow> (Some cid, Some c')))"

text \<open>\<open>BaseHypothesisTest.run\<close>, called with positional arguments only.\<close>

definition run ::
  "pylib \<Rightarrow> stats_lib \<Rightarrow> procedures \<Rightarrow> io \<Rightarrow> clock \<Rightarrow> strategy \<Rightarrow> pyfloat \<Rightarrow> ndarray list \<Rightarrow>
   cache option \<Rightarrow> (error + TestResult) \<times> cache option" where
  "run L S P i k s a args cm =
     (case validate_input s args of
        Inl e \<Rightarrow> (Inl e, cm)
      | Inr valid \<Rightarrow>
          if \<not> valid
          then (Inl (ValueError (''Input validation failed for '' @ test_type_value s)), cm)
          else
            (case check_assumptions S s args of
               Inl e \<Rightarrow> (Inl e, cm)
             | Inr assumptions \<Rightarrow>
                 let warns = unmet_assumptions assumptions in
                 (case compute_statistic P s args of
                    Inl e \<Rightarrow> (Inl e, cm)
                  | Inr (stat, p) \<Rightarrow>
                      let sig = float_lt p a;
                          dec = (if sig then ''reject'' else ''fail_to_reject'');
                          interp = interpret_result P s stat p args;
                          rec = generate_recommendation s dec assumptions;
                          es = calculate_effect_size P s args;
                          ci = calculate_confidence_interval P s args;
                          (cid, cm') = cache_detailed_results L i k s stat p cm
                      in (case get_sample_sizes s args of
                            Inl e \<Rightarrow> (Inl e, cm')
                          | Inr sizes \<Rightarrow>
                              (Inr \<lparr>test_name = get_test_name s,
                                    test_type = test_type_value s,
                                    statistic = stat,
                                    p_value = p,
                                    alpha = a,
                                    significant = sig,
                                    null_hypothesis = get_null_hypothesis P s,
                                    alternative_hypothesis = get_alternative_hypothesis P s,
                                    decision = dec,
                                    interpretation_text = interp,
                                    recommendation = rec,
                                    effect_size = es,
                                    confidence_interval = ci,
                                    power_opt = None,
                                    sample_sizes = sizes,
                                    assumptions_met = Some assumptions,
                                    warnings = (if warns \<noteq> [] then Some warns else None),
                                    cache_id = cid\<rparr>, cm')))))"

section \<open>The suggestion engine (src/utils/test\_suggester.py)\<close>

record DataCharacteristics =
  n_samples :: nat
  n_groups :: nat
  is_paired :: bool
  is_normal :: bool
  equal_variances :: bool
  data_type :: string
  has_outliers :: bool
  sample_size_adequate :: bool

text \<open>\<open>min(sample_sizes)\<close>\<close>

fun py_min :: "nat list \<Rightarrow> error + nat" where
  "py_min [] = Inl (ValueError ''min() arg is an empty sequence'')"
| "py_min (x # xs) = Inr (fold min xs x)"

text \<open>\<open>_check_normality\<close>: the first small sample that Shapiro-Wilk rejects ends the loop.\<close>

fun check_normality :: "stats_lib \<Rightarrow> ndarray list \<Rightarrow> error + bool" where
  "check_normality S [] = Inr True"
| "check_normality S (grp # groups) =
     (if length grp \<ge> 3 \<and> length grp \<le> 5000 then
        ebind (shapiro S grp) (\<lambda>(w, p_val).
          if float_lt p_val (Num 0.05) \<and> length grp < 30 then Inr False
          else check_normality S groups)
      else check_normality S groups)"

text \<open>\<open>_check_equal_variances\<close>: the bare \<open>except\<close> turns every error into \<open>True\<close>.\<close>

definition check_equal_variances :: "stats_lib \<Rightarrow> ndarray list \<Rightarrow> bool" where
  "check_equal_variances S data_groups =
     (if length data_groups < 2 then True
      else (case levene S data_groups of
              Inl e \<Rightarrow> True
            | Inr (w, p_val) \<Rightarrow> float_ge p_val (Num 0.05)))"

text \<open>\<open>_infer_data_type\<close>: \<open>len(np.unique(data))\<close> counts the distinct values.\<close>

definition infer_data_type :: "ndarray \<Rightarrow> string" where
  "infer_data_type data =
     (let unique_values = length (remdups data); n = length data
      in if unique_values \<le> 10 then ''ordinal''
         else if real unique_values / real n < 0.05 then ''nominal''
         else ''continuous'')"

text \<open>\<open>_check_outliers\<close>: the fences come from the percentiles of each sample.\<close>

fun check_outliers :: "stats_lib \<Rightarrow> ndarray list \<Rightarrow> error + bool" where
  "check_outliers S [] = Inr False"
| "check_outliers S (grp # groups) =
     ebind (iqr_bounds S grp) (\<lambda>(lower_bound, upper_bound).
       if list_ex (\<lambda>x. float_lt x lower_bound \<or> float_gt x upper_bound) grp then Inr True
       else check_outliers S groups)"

definition analyze_data :: "stats_lib \<Rightarrow> ndarray list \<Rightarrow> error + DataCharacteristics" where
  "analyze_data S data_groups =
     (if length data_groups = 0 then Inl (ValueError ''At least one data group required'')
      else
        let sample_sizes = map length data_groups;
            total_n = sum_list sample_sizes
        in ebind (py_min sample_sizes) (\<lambda>min_n.
           let paired = (case sample_sizes of
                           [s0, s1] \<Rightarrow> s0 = s1 \<and> s0 < 100
                         | _ \<Rightarrow> False)
           in ebind (check_normality S data_groups) (\<lambda>normal.
              let eq_var = (if length data_groups \<ge> 2
                            then check_equal_variances S data_groups else True);
                  dtype = infer_data_type (hd data_groups)
              in ebind (check_outliers S data_groups) (\<lambda>outliers.
                 Inr \<lparr>n_samples = total_n,
                      n_groups = length data_groups,
                      is_paired = paired,
                      is_normal = normal,
                      equal_variances = eq_var,
                      data_type = dtype,
                      has_outliers = outliers,
                      sample_size_adequate = (min_n \<ge> 30 \<or> (min_n \<ge> 20 \<and> normal))\<rparr>))))"

text \<open>
  A suggestion is the dictionary the source returns. \<open>mu0\<close> is the keyword argument of
  \<open>suggest_test\<close>, passed on to the one-sample branch only; \<open>if mu0\<close> is false for
  \<open>None\<close> and for zero.
\<close>

definition str_list :: "string list \<Rightarrow> json" where
  "str_list xs = JArr (map JStr xs)"

definition suggest_one_sample_test ::
  "DataCharacteristics \<Rightarrow> pyfloat option \<Rightarrow> (string \<times> json) list" where
  "suggest_one_sample_test chars mu0 =
     (if data_type chars \<in> set [''continuous''] then
        (if is_normal chars \<or> sample_size_adequate chars then
           [(''primary_test'', JStr ''one_sample_t_test''),
            (''test_name'', JStr ''One-Sample T-Test''),
            (''reason'', JStr (''Data is continuous and approximately normal (or n '' @
                               [CHR 0xE2, CHR 0x89, CHR 0xA5] @ '' 30)'')),
            (''confidence'', JStr ''high''),
            (''parameters'', (case mu0 of
                                None \<Rightarrow> JObj []
                              | Some m \<Rightarrow> if m \<noteq> Num 0 then JObj [(''mu0'', JNum m)] else JObj [])),
            (''alternative_tests'', str_list [''sign_test'', ''wilcoxon_signed_rank'']),
            (''assumptions_met'', JBool True)]
         else
           [(''primary_test'', JStr ''wilcoxon_signed_rank''),
            (''test_name'', JStr ''Wilcoxon Signed-Rank Test''),
            (''reason'', JStr ''Data is continuous but not normal with small sample size''),
            (''confidence'', JStr ''high''),
            (''parameters'', JObj []),
            (''alternative_tests'', str_list [''sign_test'']),
            (''assumptions_met'', JBool True)])
      else
        [(''primary_test'', JStr ''sign_test''),
         (''test_name'', JStr ''Sign Test''),
         (''reason'', JStr ''Data is ordinal/nominal''),
         (''confidence'', JStr ''medium''),
         (''parameters'', JObj []),
         (''alternative_tests'', str_list []),
         (''assumptions_met'', JBool True)])"

definition suggest_two_sample_test :: "DataCharacteristics \<Rightarrow> (string \<times> json) list" where
  "suggest_two_sample_test chars =
     (if is_paired chars then
        (if data_type chars = ''continuous'' then
           (if is_normal chars \<or> sample_size_adequate chars then
              [(''primary_test'', JStr ''paired_t_test''),
               (''test_name'', JStr ''Paired T-Test''),
               (''reason'', JStr ''Paired data, continuous, and approximately normal''),
               (''confidence'', JStr ''high''),
               (''parameters'', JObj []),
               (''alternative_tests'', str_list [''wilcoxon_signed_rank'']),
               (''assumptions_met'', JBool True)]
            else
              [(''primary_test'', JStr ''wilcoxon_signed_rank''),
               (''test_name'', JStr ''Wilcoxon Signed-Rank Test''),
               (''reason'', JStr ''Paired data, continuous, but not normal with small sample''),
               (''confidence'', JStr ''high''),
               (''parameters'', JObj []),
               (''alternative_tests'', str_list [''sign_test'']),
               (''assumptions_met'', JBool True)])
         else
           [(''primary_test'', JStr ''wilcoxon_signed_rank''),
            (''test_name'', JStr ''Wilcoxon Signed-Rank Test''),
            (''reason'', JStr ''Paired ordinal data''),
            (''confidence'', JStr ''high''),
            (''parameters'', JObj []),
            (''alternative_tests'', str_list [''sign_test'']),
            (''assumptions_met'', JBool True)])
      else
        (if data_type chars = ''continuous'' then
           (if is_normal chars \<or> sample_size_adequate chars then
              (if equal_variances chars then
                 [(''primary_test'', JStr ''two_sample_t_test''),
                  (''test_name'', JStr ''Independent Two-Sample T-Test''),
                  (''reason'', JStr ''Independent groups, continuous, normal, equal variances''),
                  (''confidence'', JStr ''high''),
                  (''parameters'', JObj [(''equal_var'', JBool True)]),
                  (''alternative_tests'', str_list [''mann_whitney_u'']),
                  (''assumptions_met'', JBool True)]
               else
                 [(''primary_test'', JStr ''two_sample_t_test''),
                  (''test_name'', JStr ''Welch's T-Test''),
                  (''reason'', JStr ''Independent groups, continuous, normal, but unequal variances''),
                  (''confidence'', JStr ''high''),
                  (''parameters'', JObj [(''equal_var'', JBool False)]),
                  (''alternative_tests'', str_list [''mann_whitney_u'']),
                  (''assumptions_met'', JBool False),
                  (''warning'', JStr ''Equal variance assumption violated - using Welch's test'')])
            else
              [(''primary_test'', JStr ''mann_whitney_u''),
               (''test_name'', JStr ''Mann-Whitney U Test''),
               (''reason'', JStr ''Independent groups, continuous, but not normal with small sample''),
               (''confidence'', JStr ''high''),
               (''parameters'', JObj []),
               (''alternative_tests'', str_list []),
               (''assumptions_met'', JBool True)])
         else
           [(''primary_test'', JStr ''mann_whitney_u''),
            (''test_name'', JStr ''Mann-Whitney U Test''),
            (''reason'', JStr ''Independent groups with ordinal data''),
            (''confidence'', JStr ''high''),
            (''parameters'', JObj []),
            (''alternative_tests'', str_list []),
            (''assumptions_met'', JBool True)]))"

definition suggest_multi_sample_test :: "DataCharacteristics \<Rightarrow> (string \<times> json) list" where
  "suggest_multi_sample_test chars =
     (if data_type chars = ''continuous'' then
        (if is_normal chars \<or> sample_size_adequate chars then
           (if equal_variances chars then
              [(''primary_test'', JStr ''one_way_anova''),
               (''test_name'', JStr ''One-Way ANOVA''),
               (''reason'', JStr (show_nat (n_groups chars) @
                                  '' groups, continuous, normal, equal variances'')),
               (''confidence'', JStr ''high''),
               (''parameters'', JObj []),
               (''alternative_tests'', str_list [''kruskal_wallis'']),
               (''assumptions_met'', JBool True),
               (''post_hoc'', JStr ''Consider Tukey HSD if significant'')]
            else
              [(''primary_test'', JStr ''kruskal_wallis''),
               (''test_name'', JStr ''Kruskal-Wallis Test''),
               (''reason'', JStr (show_nat (n_groups chars) @
                                  '' groups, continuous, but unequal variances'')),
               (''confidence'', JStr ''high''),
               (''parameters'', JObj []),
               (''alternative_tests'', str_list []),
               (''assumptions_met'', JBool False),
               (''warning'', JStr ''Equal variance assumption violated - using non-parametric test''),
               (''post_hoc'', JStr ''Consider Dunn's test if significant'')])
         else
           [(''primary_test'', JStr ''kruskal_wallis''),
            (''test_name'', JStr ''Kruskal-Wallis Test''),
            (''reason'', JStr (show_nat (n_groups chars) @
                               '' groups, continuous, not normal with small sample'')),
            (''confidence'', JStr ''high''),
            (''parameters'', JObj []),
            (''alternative_tests'', str_list []),
            (''assumptions_met'', JBool True),
            (''post_hoc'', JStr ''Consider Dunn's test if significant'')])
      else
        [(''primary_test'', JStr ''kruskal_wallis''),
         (''test_name'', JStr ''Kruskal-Wallis Test''),
         (''reason'', JStr (show_nat (n_groups chars) @ '' groups with ordinal data'')),
         (''confidence'', JStr ''high''),
         (''parameters'', JObj []),
         (''alternative_tests'', str_list []),
         (''assumptions_met'', JBool True),
         (''post_hoc'', JStr ''Consider Dunn's test if significant'')])"

definition suggest_test ::
  "stats_lib \<Rightarrow> ndarray list \<Rightarrow> pyfloat option \<Rightarrow> error + (string \<times> json) list" where
  "suggest_test S data_groups mu0 =
     ebind (analyze_data S data_groups) (\<lambda>chars.
       if n_groups chars = 1 then Inr (suggest_one_sample_test chars mu0)
       else if n_groups chars = 2 then Inr (suggest_two_sample_test chars)
       else Inr (suggest_multi_sample_test chars))"

section \<open>Concrete environments and inputs\<close>

text \<open>
  A library whose clock strings are decimal numbers, whose digest is constant and whose
  sort keeps the order; a procedure library whose tests all return the same pair; an
  environment where no I/O call fails.
\<close>

definition ex_pylib :: pylib where
  "ex_pylib =
     \<lparr>fromisoformat = (\<lambda>s. if s = ''0'' then Some (Naive 0)
                            else if s = ''100'' then Some (Naive 100) else None),
      isoformat = (\<lambda>t. show_nat (nat t)),
      sha256_hexdigest = (\<lambda>s. replicate 64 (CHR ''a'')),
      sorted_by_created_reverse = (\<lambda>xs. Inr xs)\<rparr>"

definition ex_stats :: stats_lib where
  "ex_stats =
     \<lparr>shapiro = (\<lambda>x. Inr (Num 0.9, Num 0.5)),
      levene = (\<lambda>gs. Inr (Num 1, Num 0.5)),
      fsub = (\<lambda>a b. case (a, b) of (Num x, Num y) \<Rightarrow> Num (x - y) | _ \<Rightarrow> NaN),
      iqr_bounds = (\<lambda>x. Inr (NegInf, PosInf))\<rparr>"

definition ex_procs :: procedures where
  "ex_procs =
     \<lparr>compute_statistic = (\<lambda>s args. Inr (Num 2.1, Num 0.04)),
      interpret_result = (\<lambda>s stat p args. ''significant''),
      calculate_effect_size = (\<lambda>s args. None),
      calculate_confidence_interval = (\<lambda>s args. None),
      get_null_hypothesis = (\<lambda>s. ''H0''),
      get_alternative_hypothesis = (\<lambda>s. ''H1'')\<rparr>"

definition ex_io :: io where
  "ex_io = \<lparr>write_fault = (\<lambda>p. WriteOk), read_fails = (\<lambda>p. False), unlink_fails = (\<lambda>p. False)\<rparr>"

definition ex_clock :: clock where
  "ex_clock = \<lparr>id_time = 0, created_time = 0, params_id = 7\<rparr>"

definition ex_result :: TestResult where
  "ex_result =
     \<lparr>test_name = ''One Sample T Test'',
      test_type = ''one_sample_t_test'',
      statistic = Num 2.1,
      p_value = Num 0.04,
      alpha = Num 0.05,
      significant = True,
      null_hypothesis = ''H0'',
      alternative_hypothesis = ''H1'',
      decision = ''reject'',
      interpretation_text = ''significant'',
      recommendation = ''Evidence suggests a significant effect. Consider practical significance and collect more data to confirm.'',
      effect_size = None,
      confidence_interval = None,
      power_opt = None,
      sample_sizes = Some [(''n'', 3)],
      assumptions_met = Some [(''normality'', True), (''independence'', True),
                              (''sufficient_sample_size'', True)],
      warnings = None,
      cache_id = None\<rparr>"

definition ex_result_jb :: TestResult where
  "ex_result_jb =
     \<lparr>test_name = ''Jarque Bera'',
      test_type = ''jarque_bera'',
      statistic = Num 2.1,
      p_value = Num 0.04,
      alpha = Num 0.05,
      significant = True,
      null_hypothesis = ''H0'',
      alternative_hypothesis = ''H1'',
      decision = ''reject'',
      interpretation_text = ''significant'',
      recommendation = ''Evidence suggests a significant effect. Consider practical significance and collect more data to confirm. WARNING: Assumptions not met: works_best_large_n. Consider non-parametric alternatives.'',
      effect_size = None,
      confidence_interval = None,
      power_opt = None,
      sample_sizes = Some [(''n'', 7)],
      assumptions_met = Some [(''sufficient_sample_size'', True), (''works_best_large_n'', False)],
      warnings = Some [''works_best_large_n''],
      cache_id = None\<rparr>"

text \<open>Cache states: an empty cache, one with an old and a fresh entry, and two damaged ones.\<close>

definition ex_payload :: json where
  "ex_payload = JObj [(''statistic'', JNum (Num 2.1)), (''p_value'', JNum (Num 0.04))]"

definition ex_cache :: cache where
  "ex_cache = \<lparr>cache_dir = ''/tmp/c'', ttl = 50, entries = [], last_cleanup = JNull,
               files = (\<lambda>p. None)\<rparr>"

definition ex_io_fail :: io where
  "ex_io_fail = \<lparr>write_fault = (\<lambda>p. OpenFails), read_fails = (\<lambda>p. False),
                  unlink_fails = (\<lambda>p. False)\<rparr>"

definition ex_entry :: "string \<Rightarrow> json \<Rightarrow> json" where
  "ex_entry test_id created =
     JObj [(''test_type'', JStr ''one_sample_t_test''),
           (''created'', created),
           (''has_raw_data'', JBool False),
           (''result_file'', JStr (''/tmp/c/test_results/'' @ test_id @ ''.json'')),
           (''data_file'', JNull)]"

definition ex_cache_two :: cache where
  "ex_cache_two =
     \<lparr>cache_dir = ''/tmp/c'', ttl = 50,
      entries = [(''old'', ex_entry ''old'' (JStr ''0'')), (''new'', ex_entry ''new'' (JStr ''100''))],
      last_cleanup = JNull,
      files = [''/tmp/c/test_results/old.json'' \<mapsto> JsonDoc ex_payload,
               ''/tmp/c/test_results/new.json'' \<mapsto> JsonDoc ex_payload]\<rparr>"

definition ex_cache_bad :: cache where
  "ex_cache_bad =
     \<lparr>cache_dir = ''/tmp/c'', ttl = 50,
      entries = [(''a'', ex_entry ''a'' (JStr ''not-a-date'')), (''b'', ex_entry ''b'' JNull)],
      last_cleanup = JNull,
      files = [''/tmp/c/test_results/a.json'' \<mapsto> JsonDoc ex_payload,
               ''/tmp/c/test_results/b.json'' \<mapsto> JsonDoc ex_payload]\<rparr>"

definition ex_cache_bare :: cache where
  "ex_cache_bare =
     \<lparr>cache_dir = ''/tmp/c'', ttl = 50,
      entries = [(''a'', JObj [(''test_type'', JStr ''one_sample_t_test'')])],
      last_cleanup = JNull,
      files = (\<lambda>p. None)\<rparr>"

text \<open>Inputs of the suggestion engine: a procedure library that rejects normality, and a sample of eleven distinct values.\<close>

definition ex_stats_skewed :: stats_lib where
  "ex_stats_skewed =
     \<lparr>shapiro = (\<lambda>x. Inr (Num 0.5, Num 0.01)),
      levene = (\<lambda>gs. Inr (Num 1, Num 0.5)),
      fsub = (\<lambda>a b. NaN),
      iqr_bounds = (\<lambda>x. Inr (NegInf, PosInf))\<rparr>"

definition ex_data11 :: ndarray where
  "ex_data11 = [Num 1, Num 2, Num 3, Num 4, Num 5, Num 6, Num 7, Num 8, Num 9, Num 10, Num 11]"

definition ex_chars :: "nat \<Rightarrow> bool \<Rightarrow> string \<Rightarrow> DataCharacteristics" where
  "ex_chars n normal dtype =
     \<lparr>n_samples = n, n_groups = 1, is_paired = False, is_normal = normal,
      equal_variances = True, data_type = dtype, has_outliers = False,
      sample_size_adequate = False\<rparr>"

text \<open>The result of a two-sample run in which both normality checks fail.\<close>

definition ex_result_two :: TestResult where
  "ex_result_two =
     \<lparr>test_name = ''Two Sample T Test'',
      test_type = ''two_sample_t_test'',
      statistic = Num 2.1,
      p_value = Num 0.04,
      alpha = Num 0.05,
      significant = True,
      null_hypothesis = ''H0'',
      alternative_hypothesis = ''H1'',
      decision = ''reject'',
      interpretation_text = ''significant'',
      recommendation = ''Evidence suggests a significant effect. Consider practical significance and collect more data to confirm. WARNING: Assumptions not met: group1_normality, group2_normality. Consider non-parametric alternatives.'',
      effect_size = None,
      confidence_interval = None,
      power_opt = None,
      sample_sizes = Some [(''group1'', 3), (''group2'', 3)],
      assumptions_met = Some [(''group1_normality'', False), (''group2_normality'', False),
                              (''equal_variances'', True), (''independence'', True)],
      warnings = Some [''group1_normality'', ''group2_normality''],
      cache_id = None\<rparr>"

section \<open>The pipeline\<close>

lemma get_test_name_one_sample: "get_test_name OneSampleTTest = ''One Sample T Test''"
  by code_simp

lemma ex_run_one_sample:
  "run ex_pylib ex_stats ex_procs ex_io ex_clock OneSampleTTest (Num 0.05)
     [[Num 1, Num 2, Num 3]] None = (Inr ex_result, None)"
  by (simp add: run_def ex_stats_def ex_procs_def ex_result_def ebind_def float_gt_def
      unmet_assumptions_def base_recommendation_def cache_detailed_results_def
      get_test_name_one_sample has_nan_def)

lemma get_test_name_jarque_bera: "get_test_name JarqueBeraTest = ''Jarque Bera''"
  by code_simp

lemma ex_run_jarque_bera:
  "run ex_pylib ex_stats ex_procs ex_io ex_clock JarqueBeraTest (Num 0.05)
     [[Num 1, Num 2, Num 3, Num 4, Num 5, Num 6, Num 7]] None = (Inr ex_result_jb, None)"
  by (simp add: run_def ex_stats_def ex_procs_def ex_result_jb_def ebind_def float_gt_def
      unmet_assumptions_def base_recommendation_def cache_detailed_results_def
      get_test_name_jarque_bera has_nan_def assumption_warning_def)

text \<open>
  C1. Whatever the strategy, the arguments, the procedure library and the cache, a result
  returned by \<open>run\<close> has \<open>significant\<close> equal to the strict comparison
  \<open>p_value < alpha\<close> of its own fields, and its decision is \<open>reject\<close> exactly when it is
  significant and \<open>fail_to_reject\<close> otherwise. The level and the p-value compared are the
  ones the run was given and computed.
\<close>

theorem run_significance_invariant:
  assumes "run L S P i k s a args cm = (Inr r, cm')"
  shows "significant r = float_lt (p_value r) (alpha r) \<and>
         (decision r = ''reject'' \<longleftrightarrow> significant r) \<and>
         (\<not> significant r \<longrightarrow> decision r = ''fail_to_reject'') \<and>
         alpha r = a \<and>
         compute_statistic P s args = Inr (statistic r, p_value r)"
  using assms
  by (auto simp add: run_def Let_def split: sum.splits if_splits prod.splits)

theorem run_significance_invariant_witness:
  "run ex_pylib ex_stats ex_procs ex_io ex_clock OneSampleTTest (Num 0.05)
     [[Num 1, Num 2, Num 3]] None = (Inr ex_result, None) \<and>
   significant ex_result = float_lt (p_value ex_result) (alpha ex_result) \<and>
   (decision ex_result = ''reject'' \<longleftrightarrow> significant ex_result) \<and>
   alpha ex_result = Num 0.05 \<and>
   compute_statistic ex_procs OneSampleTTest [[Num 1, Num 2, Num 3]] =
     Inr (statistic ex_result, p_value ex_result)"
  using run_significance_invariant [OF ex_run_one_sample] ex_run_one_sample by simp

text \<open>
  C2. For the paired t-test and the Wilcoxon signed-rank test, two arrays of different
  lengths fail validation, and \<open>run\<close> raises the ValueError that names the test type,
  returns no result and leaves the cache as it was.
\<close>

theorem paired_strategies_reject_unequal_lengths:
  assumes "s = PairedTTest \<or> s = WilcoxonSignedRankTest"
      and "length before \<noteq> length after"
  shows "validate_input s [before, after] = Inr False \<and>
         run L S P i k s a [before, after] cm =
           (Inl (ValueError (''Input validation failed for '' @ test_type_value s)), cm)"
  using assms by (auto simp add: run_def)

theorem paired_strategies_reject_unequal_lengths_witness:
  "(PairedTTest = PairedTTest \<or> PairedTTest = WilcoxonSignedRankTest) \<and>
   length [Num 1, Num 2, Num 3] \<noteq> length [Num 1, Num 2] \<and>
   validate_input PairedTTest [[Num 1, Num 2, Num 3], [Num 1, Num 2]] = Inr False \<and>
   run ex_pylib ex_stats ex_procs ex_io ex_clock PairedTTest (Num 0.05)
     [[Num 1, Num 2, Num 3], [Num 1, Num 2]] None =
     (Inl (ValueError ''Input validation failed for paired_t_test''), None)"
  using paired_strategies_reject_unequal_lengths
    [where s = PairedTTest and before = "[Num 1, Num 2, Num 3]" and after = "[Num 1, Num 2]"
       and L = ex_pylib and S = ex_stats and P = ex_procs and i = ex_io and k = ex_clock
       and a = "Num 0.05" and cm = None]
  by simp

text \<open>
  C10. The Shapiro-Wilk validation has an upper size limit: a sample of more than 5000
  observations fails validation (with or without NaN), and \<open>run\<close> raises the ValueError
  of a failed validation.
\<close>

theorem shapiro_wilk_rejects_large_samples:
  assumes "length data > 5000"
  shows "validate_input ShapiroWilkTest [data] = Inr False \<and>
         run L S P i k ShapiroWilkTest a [data] cm =
           (Inl (ValueError ''Input validation failed for shapiro_wilk''), cm)"
  using assms by (simp add: run_def)

theorem shapiro_wilk_rejects_large_samples_witness:
  "length (replicate 5001 (Num 0)) > 5000 \<and> \<not> has_nan (replicate 5001 (Num 0)) \<and>
   validate_input ShapiroWilkTest [replicate 5001 (Num 0)] = Inr False \<and>
   run ex_pylib ex_stats ex_procs ex_io ex_clock ShapiroWilkTest (Num 0.05)
     [replicate 5001 (Num 0)] None =
     (Inl (ValueError ''Input validation failed for shapiro_wilk''), None)"
  using shapiro_wilk_rejects_large_samples
    [where data = "replicate 5001 (Num 0)" and L = ex_pylib and S = ex_stats and P = ex_procs
       and i = ex_io and k = ex_clock and a = "Num 0.05" and cm = None]
  by (simp add: has_nan_def list_ex_iff)

section \<open>Recommendations\<close>

lemma no_warning_when_neutral:
  "d = ''reject'' \<or> d = ''fail_to_reject'' \<Longrightarrow>
   \<not> sublist ''WARNING:'' (generate_recommendation s d [])"
  apply (cases s; erule disjE; hypsubst)
  apply code_simp+
  done

lemma unmet_nonempty_iff: "unmet_assumptions A \<noteq> [] \<longleftrightarrow> (\<exists>k. (k, False) \<in> set A)"
  by (auto simp add: unmet_assumptions_def filter_empty_conv)

lemma get_default_true_all_met:
  "unmet_assumptions A = [] \<Longrightarrow> get_default_true A k = True"
  by (auto simp add: unmet_assumptions_def filter_empty_conv get_default_true_def
      split: option.splits dest!: map_of_SomeD)

lemma get_default_true_empty: "get_default_true [] k"
  by (simp add: get_default_true_def)

lemma base_recommendation_all_met:
  "unmet_assumptions A = [] \<Longrightarrow> base_recommendation d A = base_recommendation d []"
  by (simp add: base_recommendation_def unmet_assumptions_def)

lemma generate_recommendation_all_met:
  "unmet_assumptions A = [] \<Longrightarrow> generate_recommendation s d A = generate_recommendation s d []"
  by (cases s)
     (simp_all add: base_recommendation_all_met get_default_true_all_met Let_def
        get_default_true_empty)

lemma base_recommendation_warns:
  "unmet_assumptions A \<noteq> [] \<Longrightarrow>
   \<exists>ps. base_recommendation d A = ps @ assumption_warning (unmet_assumptions A)"
  by (simp add: base_recommendation_def Let_def)

lemma embeds_id: "\<exists>x y. b = x @ b @ (y :: string)"
  by (rule exI [of _ "[]"], rule exI [of _ "[]"]) simp

lemma embeds_if_prefix: "\<exists>x y. (if c then p @ b else b) = x @ b @ (y :: string)"
  by (cases c) (auto intro: exI [of _ "[]"])

lemma embeds_if_suffix: "\<exists>x y. (if c then b @ q else b) = x @ b @ (y :: string)"
  by (cases c) (auto intro: exI [of _ "[]"])

lemma embeds_if_suffix2:
  "\<exists>x y. (if c2 then (if c then b @ q else b) @ q2 else (if c then b @ q else b)) =
          x @ b @ (y :: string)"
  by (cases c; cases c2) (auto intro: exI [of _ "[]"])

lemma generate_recommendation_embeds_base:
  assumes "s \<noteq> ShapiroWilkTest" "s \<noteq> LeveneTest"
  shows "\<exists>x y. generate_recommendation s d A = x @ base_recommendation d A @ y"
proof (cases s)
  case OneWayANOVA
  show ?thesis unfolding OneWayANOVA generate_recommendation.simps Let_def
    by (rule embeds_if_suffix2)
next
  case KruskalWallisTest
  show ?thesis unfolding KruskalWallisTest generate_recommendation.simps Let_def
    by (rule embeds_if_suffix)
next
  case BartlettTest
  show ?thesis unfolding BartlettTest generate_recommendation.simps Let_def
    by (rule embeds_if_prefix)
next
  case FTestVariance
  show ?thesis unfolding FTestVariance generate_recommendation.simps Let_def
    by (rule embeds_if_prefix)
qed (use assms in \<open>simp_all only: generate_recommendation.simps embeds_id\<close>)

lemma generate_recommendation_warns:
  assumes "unmet_assumptions A \<noteq> []" "s \<noteq> ShapiroWilkTest" "s \<noteq> LeveneTest"
  shows "sublist (assumption_warning (unmet_assumptions A)) (generate_recommendation s d A)"
proof -
  obtain ps where b: "base_recommendation d A = ps @ assumption_warning (unmet_assumptions A)"
    using base_recommendation_warns [OF assms(1)] by blast
  obtain x y where g: "generate_recommendation s d A = x @ base_recommendation d A @ y"
    using generate_recommendation_embeds_base [OF assms(2,3)] by blast
  have "generate_recommendation s d A = (x @ ps) @ assumption_warning (unmet_assumptions A) @ y"
    unfolding g b by simp
  then show ?thesis unfolding sublist_def by blast
qed

lemma shapiro_validated_all_met:
  assumes "validate_input ShapiroWilkTest args = Inr True"
      and "check_assumptions S ShapiroWilkTest args = Inr A"
  shows "unmet_assumptions A = []"
proof (cases args)
  case Nil
  with assms show ?thesis by simp
next
  case (Cons data rest)
  with assms show ?thesis
    by (cases rest) (auto simp add: unmet_assumptions_def)
qed

lemma levene_validated_all_met:
  assumes "validate_input LeveneTest args = Inr True"
      and "check_assumptions S LeveneTest args = Inr A"
  shows "unmet_assumptions A = []"
proof -
  from assms(1) have "2 \<le> length args" and "\<forall>g \<in> set args. 2 \<le> length g"
    by (auto simp add: validate_groups_def list_all_iff not_less split: if_splits)
  with assms(2) show ?thesis
    by (auto simp add: unmet_assumptions_def list_all_iff)
qed

lemma run_fields:
  assumes "run L S P i k s a args cm = (Inr r, cm')"
  shows "\<exists>A. validate_input s args = Inr True \<and> check_assumptions S s args = Inr A \<and>
             assumptions_met r = Some A \<and>
             (decision r = ''reject'' \<or> decision r = ''fail_to_reject'') \<and>
             recommendation r = generate_recommendation s (decision r) A"
  using assms
  by (auto simp add: run_def Let_def split: sum.splits if_splits prod.splits)

lemma get_test_name_two_sample: "get_test_name TwoSampleTTest = ''Two Sample T Test''"
  by code_simp

lemma ex_run_two_sample:
  "run ex_pylib ex_stats_skewed ex_procs ex_io ex_clock TwoSampleTTest (Num 0.05)
     [[Num 1, Num 2, Num 3], [Num 4, Num 5, Num 6]] None = (Inr ex_result_two, None)"
  by (simp add: run_def ex_stats_skewed_def ex_procs_def ex_result_two_def ebind_def float_gt_def
      unmet_assumptions_def base_recommendation_def cache_detailed_results_def shapiro_p_def
      get_test_name_two_sample has_nan_def assumption_warning_def)

lemma join_comma_explicit:
  "xs \<noteq> [] \<Longrightarrow> join_comma xs = hd xs @ concat (map (\<lambda>n. '', '' @ n) (tl xs))"
  by (induction xs rule: join_comma.induct) simp_all

lemma join_comma_holds_name: "name \<in> set xs \<Longrightarrow> sublist name (join_comma xs)"
proof (induction xs rule: join_comma.induct)
  case 1
  then show ?case by simp
next
  case (2 x)
  then show ?case by simp
next
  case (3 x y ys)
  show ?case
  proof (cases "name = x")
    case True
    then show ?thesis by simp
  next
    case False
    with 3 have "sublist name (join_comma (y # ys))" by simp
    then obtain ps ss where "join_comma (y # ys) = ps @ name @ ss"
      unfolding sublist_def by blast
    then have "join_comma (x # y # ys) = (x @ '', '' @ ps) @ name @ ss" by simp
    then show ?thesis unfolding sublist_def by blast
  qed
qed

lemma unmet_assumptions_explicit:
  "unmet_assumptions A = map fst (filter (\<lambda>p. \<not> snd p) A)"
  by (simp add: unmet_assumptions_def case_prod_unfold)

lemma warning_holds_names:
  assumes "(name, False) \<in> set A"
  shows "sublist name (assumption_warning (unmet_assumptions A))"
proof -
  from assms have "name \<in> set (unmet_assumptions A)"
    by (force simp add: unmet_assumptions_explicit)
  then obtain ps ss where "join_comma (unmet_assumptions A) = ps @ name @ ss"
    using join_comma_holds_name unfolding sublist_def by blast
  then have "assumption_warning (unmet_assumptions A) =
      ('' WARNING: Assumptions not met: '' @ ps) @ name @
      (ss @ ''. Consider non-parametric alternatives.'')"
    by (simp add: assumption_warning_def)
  then show ?thesis unfolding sublist_def by blast
qed

lemma warning_holds_hint:
  "sublist ''Consider non-parametric alternatives.'' (assumption_warning xs)"
proof -
  have "assumption_warning xs =
      ('' WARNING: Assumptions not met: '' @ join_comma xs @ ''. '') @
      ''Consider non-parametric alternatives.'' @ []"
    by (simp add: assumption_warning_def)
  then show ?thesis unfolding sublist_def by blast
qed

lemma warning_explicit:
  assumes "\<exists>name. (name, False) \<in> set A"
  shows "assumption_warning (unmet_assumptions A) =
     '' WARNING: Assumptions not met: '' @
     hd (map fst (filter (\<lambda>p. \<not> snd p) A)) @
     concat (map (\<lambda>n. '', '' @ n) (tl (map fst (filter (\<lambda>p. \<not> snd p) A)))) @
     ''. Consider non-parametric alternatives.''"
proof -
  from assms have "unmet_assumptions A \<noteq> []" by (simp add: unmet_nonempty_iff)
  from join_comma_explicit [OF this] show ?thesis
    by (simp add: assumption_warning_def unmet_assumptions_explicit)
qed

text \<open>
  C4. For every strategy, the recommendation of a result returned by \<open>run\<close> is built from
  the assumption checks of that run. When at least one check is false, the recommendation
  contains the fixed warning: the words \<open>WARNING: Assumptions not met:\<close>, then the names
  of the checks that are false, in the order of the checks and separated by a comma and a
  space, then \<open>. Consider non-parametric alternatives.\<close>; so every unmet name and the
  hint occur in the text. (The Shapiro-Wilk and Levene strategies never get there: their
  validation makes all their checks true.) When every check is true, the recommendation
  is the text the strategy gives for the decision alone, and it holds no warning.
\<close>

theorem recommendation_warns_of_unmet_assumptions:
  assumes "run L S P i k s a args cm = (Inr r, cm')"
  shows "\<exists>A. assumptions_met r = Some A \<and> check_assumptions S s args = Inr A \<and>
           ((\<exists>name. (name, False) \<in> set A) \<longrightarrow>
              sublist (assumption_warning (unmet_assumptions A)) (recommendation r) \<and>
              sublist ('' WARNING: Assumptions not met: '' @
                       hd (map fst (filter (\<lambda>p. \<not> snd p) A)) @
                       concat (map (\<lambda>n. '', '' @ n) (tl (map fst (filter (\<lambda>p. \<not> snd p) A)))) @
                       ''. Consider non-parametric alternatives.'') (recommendation r) \<and>
              (\<forall>name. (name, False) \<in> set A \<longrightarrow> sublist name (recommendation r)) \<and>
              sublist ''Consider non-parametric alternatives.'' (recommendation r)) \<and>
           ((\<forall>name v. (name, v) \<in> set A \<longrightarrow> v) \<longrightarrow>
              recommendation r = generate_recommendation s (decision r) [] \<and>
              \<not> sublist ''WARNING:'' (recommendation r))"
proof -
  obtain A where v: "validate_input s args = Inr True"
    and c: "check_assumptions S s args = Inr A"
    and am: "assumptions_met r = Some A"
    and d: "decision r = ''reject'' \<or> decision r = ''fail_to_reject''"
    and rc: "recommendation r = generate_recommendation s (decision r) A"
    using run_fields [OF assms] by blast
  have warn: "sublist (assumption_warning (unmet_assumptions A)) (recommendation r)"
    if "\<exists>name. (name, False) \<in> set A"
  proof -
    from that have u: "unmet_assumptions A \<noteq> []" by (simp add: unmet_nonempty_iff)
    have "s \<noteq> ShapiroWilkTest" using u v c shapiro_validated_all_met by blast
    moreover have "s \<noteq> LeveneTest" using u v c levene_validated_all_met by blast
    ultimately show ?thesis using generate_recommendation_warns [OF u] rc by simp
  qed
  have expl: "sublist ('' WARNING: Assumptions not met: '' @
                       hd (map fst (filter (\<lambda>p. \<not> snd p) A)) @
                       concat (map (\<lambda>n. '', '' @ n) (tl (map fst (filter (\<lambda>p. \<not> snd p) A)))) @
                       ''. Consider non-parametric alternatives.'') (recommendation r)"
    if "\<exists>name. (name, False) \<in> set A"
    using warn [OF that] warning_explicit [OF that] by simp
  have names: "sublist name (recommendation r)" if "(name, False) \<in> set A" for name
  proof -
    have "\<exists>name. (name, False) \<in> set A" using that by blast
    from warn [OF this] warning_holds_names [OF that] show ?thesis
      by (rule sublist_order.order.trans [rotated])
  qed
  have hint: "sublist ''Consider non-parametric alternatives.'' (recommendation r)"
    if "\<exists>name. (name, False) \<in> set A"
    using warn [OF that] warning_holds_hint [of "unmet_assumptions A"]
    by (rule sublist_order.order.trans [rotated])
  have neutral: "recommendation r = generate_recommendation s (decision r) [] \<and>
                 \<not> sublist ''WARNING:'' (recommendation r)"
    if "\<forall>name v. (name, v) \<in> set A \<longrightarrow> v"
  proof -
    from that have u: "unmet_assumptions A = []"
      using unmet_nonempty_iff [of A] by blast
    show ?thesis
      using rc generate_recommendation_all_met [OF u] no_warning_when_neutral [OF d] by simp
  qed
  show ?thesis using am c warn expl names hint neutral by blast
qed

theorem recommendation_warns_of_unmet_assumptions_witness:
  "run ex_pylib ex_stats_skewed ex_procs ex_io ex_clock TwoSampleTTest (Num 0.05)
     [[Num 1, Num 2, Num 3], [Num 4, Num 5, Num 6]] None = (Inr ex_result_two, None) \<and>
   assumptions_met ex_result_two =
     Some [(''group1_normality'', False), (''group2_normality'', False),
           (''equal_variances'', True), (''independence'', True)] \<and>
   (''group1_normality'', False) \<in>
     set [(''group1_normality'', False), (''group2_normality'', False),
          (''equal_variances'', True), (''independence'', True)] \<and>
   (''group2_normality'', False) \<in>
     set [(''group1_normality'', False), (''group2_normality'', False),
          (''equal_variances'', True), (''independence'', True)] \<and>
   sublist '' WARNING: Assumptions not met: group1_normality, group2_normality. Consider non-parametric alternatives.''
     (recommendation ex_result_two) \<and>
   sublist ''group1_normality'' (recommendation ex_result_two) \<and>
   sublist ''group2_normality'' (recommendation ex_result_two) \<and>
   sublist ''Consider non-parametric alternatives.'' (recommendation ex_result_two) \<and>
   run ex_pylib ex_stats ex_procs ex_io ex_clock OneSampleTTest (Num 0.05)
     [[Num 1, Num 2, Num 3]] None = (Inr ex_result, None) \<and>
   recommendation ex_result = generate_recommendation OneSampleTTest ''reject'' [] \<and>
   \<not> sublist ''WARNING:'' (recommendation ex_result)"
proof -
  let ?A = "[(''group1_normality'', False), (''group2_normality'', False),
             (''equal_variances'', True), (''independence'', True)]"
  have am: "assumptions_met ex_result_two = Some ?A" by (simp add: ex_result_two_def)
  have m1: "(''group1_normality'', False) \<in> set ?A" by simp
  have m2: "(''group2_normality'', False) \<in> set ?A" by simp
  from recommendation_warns_of_unmet_assumptions [OF ex_run_two_sample] am
  have two: "(\<exists>name. (name, False) \<in> set ?A) \<longrightarrow>
      sublist ('' WARNING: Assumptions not met: '' @
               hd (map fst (filter (\<lambda>p. \<not> snd p) ?A)) @
               concat (map (\<lambda>n. '', '' @ n) (tl (map fst (filter (\<lambda>p. \<not> snd p) ?A)))) @
               ''. Consider non-parametric alternatives.'') (recommendation ex_result_two) \<and>
      (\<forall>name. (name, False) \<in> set ?A \<longrightarrow> sublist name (recommendation ex_result_two)) \<and>
      sublist ''Consider non-parametric alternatives.'' (recommendation ex_result_two)"
    by auto
  have ex: "\<exists>name. (name, False) \<in> set ?A" using m1 by blast
  have t: "'' WARNING: Assumptions not met: '' @
               hd (map fst (filter (\<lambda>p. \<not> snd p) ?A)) @
               concat (map (\<lambda>n. '', '' @ n) (tl (map fst (filter (\<lambda>p. \<not> snd p) ?A)))) @
               ''. Consider non-parametric alternatives.'' =
           '' WARNING: Assumptions not met: group1_normality, group2_normality. Consider non-parametric alternatives.''"
    by simp
  from two ex have
    w: "sublist '' WARNING: Assumptions not met: group1_normality, group2_normality. Consider non-parametric alternatives.''
          (recommendation ex_result_two)"
    and n: "\<forall>name. (name, False) \<in> set ?A \<longrightarrow> sublist name (recommendation ex_result_two)"
    and h: "sublist ''Consider non-parametric alternatives.'' (recommendation ex_result_two)"
    unfolding t by blast+
  from n m1 have n1: "sublist ''group1_normality'' (recommendation ex_result_two)" by blast
  from n m2 have n2: "sublist ''group2_normality'' (recommendation ex_result_two)" by blast
  have os: "recommendation ex_result = generate_recommendation OneSampleTTest ''reject'' [] \<and>
            \<not> sublist ''WARNING:'' (recommendation ex_result)"
    using recommendation_warns_of_unmet_assumptions [OF ex_run_one_sample]
    by (auto simp add: ex_result_def)
  show ?thesis using ex_run_two_sample am m1 m2 w n1 n2 h os ex_run_one_sample by blast
qed

section \<open>The result cache\<close>

subsection \<open>Facts about the operations\<close>

lemma result_file_not_index_file:
  "test_results_dir c @ ''/'' @ t @ ''.json'' \<noteq> index_file c"
  by (simp add: test_results_dir_def index_file_def)

lemma map_of_update_same: "map_of (AList.update k v al) k = Some v"
  by (simp add: update_conv')

lemma map_of_delete_same: "map_of (AList.delete k al) k = None"
  by (simp add: delete_conv')

lemma get_result_absent:
  "map_of (entries c) test_id = None \<Longrightarrow> get_result i test_id inc c = (Inr None, c)"
  by (simp add: get_result_def)

lemma cache_result_ok:
  assumes "write_fault i (test_results_dir c @ ''/'' @ generate_test_id L now_id ident tt @ ''.json'') = WriteOk"
      and "raw = None \<or> \<not> truthy (the raw) \<or>
           write_fault i (test_results_dir c @ ''/'' @ generate_test_id L now_id ident tt @ ''_data.json'') = WriteOk"
  shows "\<exists>c'. cache_result L i now_id now_created ident tt payload raw c =
            (generate_test_id L now_id ident tt, c') \<and>
          cache_dir c' = cache_dir c \<and> ttl c' = ttl c \<and>
          map_of (entries c') (generate_test_id L now_id ident tt) =
            Some (written_entry L c (generate_test_id L now_id ident tt) now_created tt raw) \<and>
          files c' (test_results_dir c @ ''/'' @ generate_test_id L now_id ident tt @ ''.json'') = Some (JsonDoc payload)"
  using assms
  apply (cases raw)
   apply (auto simp add: cache_result_def Let_def write_file_def save_index_def map_of_update_same
      result_file_not_index_file test_results_dir_def index_file_def written_entry_def
      split: wfault.splits prod.splits)
  done

lemma get_result_written:
  assumes "map_of (entries c1) tid = Some (written_entry L c tid now_created tt raw)"
      and "files c1 (test_results_dir c @ ''/'' @ tid @ ''.json'') = Some (JsonDoc payload)"
      and "\<not> read_fails i (test_results_dir c @ ''/'' @ tid @ ''.json'')"
  shows "get_result i tid False c1 = (Inr (Some payload), c1)"
  using assms by (simp add: get_result_def written_entry_def ebind_def load_file_def)

lemma delete_entry_files_written:
  "fst (delete_entry_files i (written_entry L c tid now_created tt raw) fs) = None"
  by (auto simp add: delete_entry_files_def written_entry_def ebind_def Let_def)

lemma delete_result_written:
  assumes "map_of (entries c1) tid = Some (written_entry L c tid now_created tt raw)"
  shows "\<exists>c2. delete_result i tid c1 = (None, c2) \<and> map_of (entries c2) tid = None"
proof -
  obtain r fs where d: "delete_entry_files i (written_entry L c tid now_created tt raw) (files c1) = (r, fs)"
    by (cases "delete_entry_files i (written_entry L c tid now_created tt raw) (files c1)")
  with delete_entry_files_written [of i L c tid now_created tt raw "files c1"]
  have "r = None" by simp
  with d assms show ?thesis
    by (simp add: delete_result_def save_index_def map_of_delete_same)
qed

lemma delete_result_entries:
  "delete_result i k c = (None, c') \<Longrightarrow>
   entries c' = AList.delete k (entries c) \<and> ttl c' = ttl c \<and> cache_dir c' = cache_dir c"
  by (auto simp add: delete_result_def save_index_def delete_id map_of_eq_None_iff
      split: option.splits prod.splits)

lemma delete_all_entries:
  "delete_all i ids c = (None, c') \<Longrightarrow>
   entries c' = filter (\<lambda>p. fst p \<notin> set ids) (entries c) \<and> ttl c' = ttl c \<and>
   cache_dir c' = cache_dir c"
proof (induction ids arbitrary: c)
  case Nil
  then show ?case by simp
next
  case (Cons k ids)
  obtain r c1 where d: "delete_result i k c = (r, c1)" by (cases "delete_result i k c")
  with Cons.prems have r: "r = None" and rest: "delete_all i ids c1 = (None, c')"
    by (auto split: option.splits)
  from d r have e: "entries c1 = AList.delete k (entries c)" "ttl c1 = ttl c" "cache_dir c1 = cache_dir c"
    using delete_result_entries by blast+
  from Cons.IH [OF rest] e show ?case
    by (auto simp add: AList.delete_eq intro: filter_cong)
qed

lemma expired_ids_member:
  "expired_ids L now t es = Inr ids \<Longrightarrow> (k, e) \<in> set es \<Longrightarrow>
   is_expired L now t e = Inr True \<Longrightarrow> k \<in> set ids"
  by (induction es arbitrary: ids) (auto split: sum.splits if_splits)

lemma is_expired_written:
  assumes "fromisoformat L (isoformat L now_created) = Some (Naive now_created)"
      and "now - now_created > t"
  shows "is_expired L now t (written_entry L c tid now_created tt raw) = Inr True"
  using assms by (simp add: is_expired_def entry_age_exceeds_def written_entry_def)

lemma cleanup_removes_expired:
  assumes "cleanup_expired L i now c1 = (None, c3)"
      and "(k, e) \<in> set (entries c1)"
      and "is_expired L now (ttl c1) e = Inr True"
  shows "map_of (entries c3) k = None"
proof -
  from assms(1) obtain ids c' where ids: "expired_ids L now (ttl c1) (entries c1) = Inr ids"
    and da: "delete_all i ids c1 = (None, c')"
    and c3: "entries c3 = entries c'"
    by (auto simp add: cleanup_expired_def save_index_def split: sum.splits prod.splits option.splits)
  have "k \<in> set ids" using expired_ids_member [OF ids assms(2,3)] .
  with delete_all_entries [OF da] c3 show ?thesis
    by (auto simp add: map_of_eq_None_iff)
qed

lemma delete_entry_files_sticky:
  "delete_entry_files i entry fs = (Some e, fs') \<Longrightarrow>
   delete_entry_files i2 entry fs' = (Some e, fs')"
  by (auto simp add: delete_entry_files_def Let_def split: sum.splits if_splits)

lemma delete_result_sticky:
  assumes "delete_result i k c = (Some e, c')"
  shows "delete_result i2 k c' = (Some e, c') \<and> entries c' = entries c \<and> ttl c' = ttl c"
proof -
  from assms obtain entry fs' where m: "map_of (entries c) k = Some entry"
    and d: "delete_entry_files i entry (files c) = (Some e, fs')"
    and c': "c' = c\<lparr>files := fs'\<rparr>"
    by (auto simp add: delete_result_def split: option.splits prod.splits)
  from delete_entry_files_sticky [OF d]
  have "delete_entry_files i2 entry fs' = (Some e, fs')" .
  with m c' show ?thesis by (simp add: delete_result_def)
qed

lemma delete_all_fails_at:
  "delete_all i ids c = (Some e, c') \<Longrightarrow>
   \<exists>done k rest cm. ids = done @ k # rest \<and>
      entries cm = filter (\<lambda>p. fst p \<notin> set done) (entries c) \<and> ttl cm = ttl c \<and>
      delete_result i k cm = (Some e, c')"
proof (induction ids arbitrary: c)
  case Nil
  then show ?case by simp
next
  case (Cons k ids)
  obtain r c1 where d: "delete_result i k c = (r, c1)" by (cases "delete_result i k c")
  show ?case
  proof (cases r)
    case (Some e1)
    with d Cons.prems have "delete_result i k c = (Some e, c')" by simp
    then have "k # ids = [] @ k # ids \<and>
      entries c = filter (\<lambda>p. fst p \<notin> set []) (entries c) \<and> ttl c = ttl c \<and>
      delete_result i k c = (Some e, c')" by simp
    then show ?thesis by blast
  next
    case None
    with d Cons.prems have rest: "delete_all i ids c1 = (Some e, c')" by simp
    from d None have e: "entries c1 = AList.delete k (entries c)" "ttl c1 = ttl c"
      using delete_result_entries by blast+
    from Cons.IH [OF rest] obtain dn k' rs cm where
      ids: "ids = dn @ k' # rs"
      and en: "entries cm = filter (\<lambda>p. fst p \<notin> set dn) (entries c1)"
      and t: "ttl cm = ttl c1"
      and dr: "delete_result i k' cm = (Some e, c')"
      by blast
    have "k # ids = (k # dn) @ k' # rs" using ids by simp
    moreover have "entries cm = filter (\<lambda>p. fst p \<notin> set (k # dn)) (entries c)"
      using en e(1) by (auto simp add: AList.delete_eq intro: filter_cong)
    moreover have "ttl cm = ttl c" using t e(2) by simp
    ultimately show ?thesis using dr by blast
  qed
qed

lemma expired_ids_filter:
  "expired_ids L now t es = Inr ids \<Longrightarrow>
   expired_ids L now t (filter (\<lambda>p. fst p \<notin> D) es) = Inr (filter (\<lambda>k. k \<notin> D) ids)"
  by (induction es arbitrary: ids) (auto split: sum.splits if_splits)

lemma expired_ids_keys:
  "expired_ids L now t es = Inr ids \<Longrightarrow> k \<in> set ids \<Longrightarrow> k \<in> fst ` set es"
proof (induction es arbitrary: ids)
  case Nil
  then show ?case by simp
next
  case (Cons p es)
  obtain k' e where p: "p = (k', e)" by (cases p)
  from Cons.prems(1) p obtain b ids' where
    r: "expired_ids L now t es = Inr ids'" and i: "ids = (if b then k' # ids' else ids')"
    by (auto split: sum.splits)
  from Cons.prems(2) i have "k = k' \<or> k \<in> set ids'" by (auto split: if_splits)
  with Cons.IH [OF r] p show ?case by auto
qed

lemma expired_ids_distinct:
  "expired_ids L now t es = Inr ids \<Longrightarrow> distinct (map fst es) \<Longrightarrow> distinct ids"
proof (induction es arbitrary: ids)
  case Nil
  then show ?case by simp
next
  case (Cons p es)
  obtain k e where p: "p = (k, e)" by (cases p)
  from Cons.prems(1) p obtain b ids' where
    r: "expired_ids L now t es = Inr ids'" and i: "ids = (if b then k # ids' else ids')"
    by (auto split: sum.splits)
  from Cons.prems(2) p have "k \<notin> fst ` set es" "distinct (map fst es)" by auto
  with expired_ids_keys [OF r] Cons.IH [OF r] i show ?case by (auto split: if_splits)
qed

lemma expired_ids_all_expired:
  "expired_ids L now t es = Inr ids \<Longrightarrow>
   expired_ids L now t (filter (\<lambda>p. fst p \<notin> set ids) es) = Inr []"
  using expired_ids_filter [of L now t es ids "set ids"] by simp

lemma save_index_idem: "save_index i (save_index i c) = save_index i c"
  by (simp add: save_index_def write_file_def index_file_def index_json_def
      split: wfault.splits)

lemma save_index_fields [simp]:
  "entries (save_index i c) = entries c" "ttl (save_index i c) = ttl c"
  "last_cleanup (save_index i c) = last_cleanup c"
  by (simp_all add: save_index_def)

lemma cache_result_write_fails:
  assumes "write_fault i (test_results_dir c @ ''/'' @ generate_test_id L now_id ident tt @ ''.json'') \<noteq> WriteOk \<or>
           (raw \<noteq> None \<and> truthy (the raw) \<and>
            write_fault i (test_results_dir c @ ''/'' @ generate_test_id L now_id ident tt @ ''_data.json'') \<noteq> WriteOk)"
  shows "fst (cache_result L i now_id now_created ident tt payload raw c) =
           ''cache_error_'' @ generate_test_id L now_id ident tt \<and>
         entries (snd (cache_result L i now_id now_created ident tt payload raw c)) = entries c"
  using assms
  by (cases raw)
     (auto simp add: cache_result_def Let_def write_file_def split: wfault.splits prod.splits)

lemma sentinel_not_an_identifier:
  assumes "\<forall>x. length (sha256_hexdigest L x) = 64"
  shows "generate_test_id L n' d' t' \<noteq> ''cache_error_'' @ generate_test_id L n d t"
proof
  assume "generate_test_id L n' d' t' = ''cache_error_'' @ generate_test_id L n d t"
  then have "length (generate_test_id L n' d' t') =
             length (''cache_error_'' @ generate_test_id L n d t)"
    by simp
  with assms show False by (simp add: generate_test_id_def)
qed

lemma run_with_failing_cache:
  assumes "write_fault i (test_results_dir c @ ''/'' @
             generate_test_id L (id_time k) (params_id k) (test_type_value s) @ ''.json'') \<noteq> WriteOk"
      and "run L S P i k s a args None = (Inr r, None)"
  shows "\<exists>c'. run L S P i k s a args (Some c) =
           (Inr (r\<lparr>cache_id := Some (''cache_error_'' @
                 generate_test_id L (id_time k) (params_id k) (test_type_value s))\<rparr>), Some c') \<and>
          entries c' = entries c"
proof -
  from assms(2) obtain A stat p sizes where v: "validate_input s args = Inr True"
    and ch: "check_assumptions S s args = Inr A"
    and cs: "compute_statistic P s args = Inr (stat, p)"
    and gs: "get_sample_sizes s args = Inr sizes"
    by (auto simp add: run_def Let_def split: sum.splits if_splits prod.splits)
  let ?payload = "JObj [(''statistic'', JNum stat), (''p_value'', JNum p)]"
  obtain cid c' where cr: "cache_result L i (id_time k) (created_time k) (params_id k)
      (test_type_value s) ?payload None c = (cid, c')"
    by (cases "cache_result L i (id_time k) (created_time k) (params_id k)
      (test_type_value s) ?payload None c")
  from cache_result_write_fails [of i c L "id_time k" "params_id k" "test_type_value s" None
        "created_time k" ?payload] assms(1) cr
  have cid: "cid = ''cache_error_'' @ generate_test_id L (id_time k) (params_id k) (test_type_value s)"
    and en: "entries c' = entries c"
    by simp_all
  from assms(2) have r: "run L S P i k s a args (Some c) =
      (Inr (r\<lparr>cache_id := Some cid\<rparr>), Some c')"
    by (auto simp add: run_def Let_def cache_detailed_results_def v ch cs gs cr split: if_splits)
  show ?thesis using r cid en by blast
qed

lemma ex_test_id: "generate_test_id ex_pylib n d t = ''aaaaaaaaaaaaaaaa''"
  by (simp add: generate_test_id_def ex_pylib_def) code_simp

lemma ex_iso0: "isoformat ex_pylib 0 = ''0''"
  by code_simp

lemma ex_iso100: "isoformat ex_pylib 100 = ''100''"
  by (simp add: ex_pylib_def) code_simp

lemma ex_run_one_sample_any_io:
  "run ex_pylib ex_stats ex_procs i ex_clock OneSampleTTest (Num 0.05)
     [[Num 1, Num 2, Num 3]] None = (Inr ex_result, None)"
  by (simp add: run_def ex_stats_def ex_procs_def ex_result_def ebind_def float_gt_def
      unmet_assumptions_def base_recommendation_def cache_detailed_results_def
      get_test_name_one_sample has_nan_def)

lemma delete_entry_files_keeps:
  "\<not> refers_to entry p \<Longrightarrow> snd (delete_entry_files i entry fs) p = fs p"
  by (cases "getitem entry ''result_file''"; cases "getitem entry ''data_file''")
     (auto simp add: delete_entry_files_def refers_to_def ebind_def Let_def
        split: sum.splits elim!: as_path.elims)

lemma delete_result_keeps:
  assumes "k \<noteq> tid"
      and "\<forall>e. (k, e) \<in> set (entries c) \<longrightarrow> \<not> refers_to e p"
      and "p \<noteq> index_file c"
  shows "map_of (entries (snd (delete_result i k c))) tid = map_of (entries c) tid \<and>
         files (snd (delete_result i k c)) p = files c p \<and>
         cache_dir (snd (delete_result i k c)) = cache_dir c \<and>
         ttl (snd (delete_result i k c)) = ttl c \<and>
         set (entries (snd (delete_result i k c))) \<subseteq> set (entries c)"
proof (cases "map_of (entries c) k")
  case None
  then show ?thesis by (simp add: delete_result_def)
next
  case (Some entry)
  then have "(k, entry) \<in> set (entries c)" by (rule map_of_SomeD)
  with assms(2) have nr: "\<not> refers_to entry p" by blast
  obtain r fs where d: "delete_entry_files i entry (files c) = (r, fs)"
    by (cases "delete_entry_files i entry (files c)")
  with delete_entry_files_keeps [OF nr, of i "files c"] have fp: "fs p = files c p" by simp
  have sub: "set (AList.delete k (entries c)) \<subseteq> set (entries c)"
    by (auto simp add: AList.delete_eq)
  show ?thesis
    using Some d fp assms(1,3) sub
    by (cases r)
       (auto simp add: delete_result_def save_index_def write_file_def index_file_def
          split: wfault.splits)
qed

lemma delete_all_keeps:
  assumes "tid \<notin> set ids"
      and "\<forall>k e. (k, e) \<in> set (entries c) \<longrightarrow> k \<noteq> tid \<longrightarrow> \<not> refers_to e p"
      and "p \<noteq> index_file c"
  shows "map_of (entries (snd (delete_all i ids c))) tid = map_of (entries c) tid \<and>
         files (snd (delete_all i ids c)) p = files c p \<and>
         cache_dir (snd (delete_all i ids c)) = cache_dir c"
  using assms
proof (induction ids arbitrary: c)
  case Nil
  then show ?case by simp
next
  case (Cons k ids)
  obtain r c1 where dr: "delete_result i k c = (r, c1)" by (cases "delete_result i k c")
  then have s1: "snd (delete_result i k c) = c1" by simp
  from Cons.prems have k: "k \<noteq> tid" and t: "tid \<notin> set ids" by auto
  from Cons.prems(2) k have "\<forall>e. (k, e) \<in> set (entries c) \<longrightarrow> \<not> refers_to e p" by blast
  from delete_result_keeps [OF k this Cons.prems(3), of i]
  have m: "map_of (entries c1) tid = map_of (entries c) tid"
    and f: "files c1 p = files c p"
    and cd: "cache_dir c1 = cache_dir c"
    and sub: "set (entries c1) \<subseteq> set (entries c)"
    unfolding s1 by blast+
  have inv: "\<forall>k e. (k, e) \<in> set (entries c1) \<longrightarrow> k \<noteq> tid \<longrightarrow> \<not> refers_to e p"
    using Cons.prems(2) sub by blast
  have ix: "p \<noteq> index_file c1" using Cons.prems(3) cd by (simp add: index_file_def)
  show ?case
  proof (cases r)
    case None
    with dr have "delete_all i (k # ids) c = delete_all i ids c1" by simp
    with Cons.IH [OF t inv ix] m f cd show ?thesis by simp
  next
    case (Some e)
    with dr have "delete_all i (k # ids) c = (Some e, c1)" by simp
    with m f cd show ?thesis by simp
  qed
qed

lemma expired_ids_sound:
  "expired_ids L now t es = Inr ids \<Longrightarrow> k \<in> set ids \<Longrightarrow>
   \<exists>e. (k, e) \<in> set es \<and> is_expired L now t e = Inr True"
proof (induction es arbitrary: ids)
  case Nil
  then show ?case by simp
next
  case (Cons p es)
  obtain k' e' where p: "p = (k', e')" by (cases p)
  from Cons.prems(1) p obtain b ids' where
    b: "is_expired L now t e' = Inr b"
    and r: "expired_ids L now t es = Inr ids'" and i: "ids = (if b then k' # ids' else ids')"
    by (auto split: sum.splits)
  show ?case
  proof (cases "k \<in> set ids'")
    case True
    from Cons.IH [OF r True] show ?thesis by auto
  next
    case False
    with Cons.prems(2) i have "b" "k = k'" by (auto split: if_splits)
    with b p show ?thesis by auto
  qed
qed

lemma cleanup_keeps_fresh:
  assumes d: "distinct (map fst (entries c1))"
      and m: "map_of (entries c1) tid = Some e0"
      and fresh: "is_expired L now (ttl c1) e0 = Inr False"
      and inv: "\<forall>k e. (k, e) \<in> set (entries c1) \<longrightarrow> k \<noteq> tid \<longrightarrow> \<not> refers_to e p"
      and ix: "p \<noteq> index_file c1"
  shows "map_of (entries (snd (cleanup_expired L i now c1))) tid = Some e0 \<and>
         files (snd (cleanup_expired L i now c1)) p = files c1 p"
proof (cases "expired_ids L now (ttl c1) (entries c1)")
  case (Inl e)
  then show ?thesis using m by (simp add: cleanup_expired_def)
next
  case (Inr ids)
  have nt: "tid \<notin> set ids"
  proof
    assume "tid \<in> set ids"
    from expired_ids_sound [OF Inr this] obtain e where
      e: "(tid, e) \<in> set (entries c1)" and x: "is_expired L now (ttl c1) e = Inr True"
      by blast
    from d e have "map_of (entries c1) tid = Some e" by (rule map_of_is_SomeI)
    with m have "e = e0" by simp
    with x fresh show False by simp
  qed
  obtain r c' where da: "delete_all i ids c1 = (r, c')" by (cases "delete_all i ids c1")
  then have s': "snd (delete_all i ids c1) = c'" by simp
  from delete_all_keeps [OF nt inv ix, of i]
  have m': "map_of (entries c') tid = map_of (entries c1) tid"
    and f': "files c' p = files c1 p" and cd: "cache_dir c' = cache_dir c1"
    unfolding s' by blast+
  have ix': "p \<noteq> index_file (c'\<lparr>last_cleanup := JStr (isoformat L now)\<rparr>)"
    using ix cd by (simp add: index_file_def)
  show ?thesis
    using m m' f' ix'
    by (cases r)
       (auto simp add: cleanup_expired_def Inr da save_index_def write_file_def
          split: wfault.splits)
qed

lemma is_expired_written_fresh:
  assumes "fromisoformat L (isoformat L now_created) = Some (Naive now_created)"
      and "now - now_created \<le> t"
  shows "is_expired L now t (written_entry L c tid now_created tt raw) = Inr False"
  using assms by (simp add: is_expired_def entry_age_exceeds_def written_entry_def)

lemma update_other_member:
  "(k', e) \<in> set (AList.update k v al) \<Longrightarrow> k' \<noteq> k \<Longrightarrow> (k', e) \<in> set al"
  by (induction al) (auto split: if_splits)

lemma cache_result_ok_entries:
  assumes "write_fault i (test_results_dir c @ ''/'' @ generate_test_id L now_id ident tt @ ''.json'') = WriteOk"
      and "raw = None \<or> \<not> truthy (the raw) \<or>
           write_fault i (test_results_dir c @ ''/'' @ generate_test_id L now_id ident tt @ ''_data.json'') = WriteOk"
  shows "entries (snd (cache_result L i now_id now_created ident tt payload raw c)) =
           AList.update (generate_test_id L now_id ident tt)
             (written_entry L c (generate_test_id L now_id ident tt) now_created tt raw) (entries c)"
  using assms
  by (cases raw)
     (auto simp add: cache_result_def Let_def write_file_def save_index_def
        split: wfault.splits prod.splits)

lemma fresh_payload_kept:
  assumes w1: "write_fault i (test_results_dir c @ ''/'' @ generate_test_id L now_id ident tt @ ''.json'') = WriteOk"
      and w2: "raw = None \<or> \<not> truthy (the raw) \<or>
           write_fault i (test_results_dir c @ ''/'' @ generate_test_id L now_id ident tt @ ''_data.json'') = WriteOk"
      and d: "distinct (map fst (entries c))"
      and inv: "\<forall>k e. (k, e) \<in> set (entries c) \<longrightarrow> k \<noteq> generate_test_id L now_id ident tt \<longrightarrow>
                 \<not> refers_to e (test_results_dir c @ ''/'' @ generate_test_id L now_id ident tt @ ''.json'')"
      and iso: "fromisoformat L (isoformat L now_created) = Some (Naive now_created)"
      and age: "now - now_created \<le> ttl c"
      and rd: "\<not> read_fails i2 (test_results_dir c @ ''/'' @ generate_test_id L now_id ident tt @ ''.json'')"
  shows "fst (get_result i2 (generate_test_id L now_id ident tt) False
           (snd (cleanup_expired L i1 now
             (snd (cache_result L i now_id now_created ident tt payload raw c))))) =
         Inr (Some payload)"
proof -
  let ?tid = "generate_test_id L now_id ident tt"
  let ?p = "test_results_dir c @ ''/'' @ ?tid @ ''.json''"
  let ?e0 = "written_entry L c ?tid now_created tt raw"
  let ?c1 = "snd (cache_result L i now_id now_created ident tt payload raw c)"
  obtain c1 where cr: "cache_result L i now_id now_created ident tt payload raw c = (?tid, c1)"
    and cd: "cache_dir c1 = cache_dir c"
    and t: "ttl c1 = ttl c"
    and m: "map_of (entries c1) ?tid = Some ?e0"
    and f: "files c1 ?p = Some (JsonDoc payload)"
    using cache_result_ok [OF w1 w2] by blast
  from cr have c1: "?c1 = c1" by simp
  have en: "entries c1 = AList.update ?tid ?e0 (entries c)"
    using cache_result_ok_entries [OF w1 w2, of now_created payload] c1 by simp
  have d1: "distinct (map fst (entries c1))" using d en by (simp add: distinct_update)
  have inv1: "\<forall>k e. (k, e) \<in> set (entries c1) \<longrightarrow> k \<noteq> ?tid \<longrightarrow> \<not> refers_to e ?p"
    using inv en update_other_member by metis
  have ix: "?p \<noteq> index_file c1"
    using result_file_not_index_file [of c ?tid] cd by (simp add: index_file_def)
  have fr: "is_expired L now (ttl c1) ?e0 = Inr False"
    using is_expired_written_fresh [OF iso] age t by simp
  let ?c2 = "snd (cleanup_expired L i1 now c1)"
  from cleanup_keeps_fresh [OF d1 m fr inv1 ix, of i1]
  have m2: "map_of (entries ?c2) ?tid = Some ?e0" and f2: "files ?c2 ?p = Some (JsonDoc payload)"
    using f by simp_all
  from get_result_written [OF m2 f2 rd] show ?thesis unfolding c1 by simp
qed

lemma float_eq_refl: "\<not> isnan x \<Longrightarrow> float_eq x x"
  by (cases x) simp_all

lemma py_eq_refl: "nan_free j \<Longrightarrow> py_eq j j"
proof (induction j)
  case (JArr xs)
  then show ?case by (auto simp add: list_all2_same list_all_iff)
next
  case (JObj kvs)
  have "case map_of kvs k of None \<Rightarrow> False
        | Some v \<Rightarrow> (case map_of kvs k of None \<Rightarrow> False | Some v' \<Rightarrow> py_eq v v')"
    if "k \<in> fst ` set kvs" for k
  proof -
    from that obtain v where v: "map_of kvs k = Some v"
      by (metis domIff dom_map_of_conv_image_fst not_Some_eq)
    then have m: "(k, v) \<in> set kvs" by (rule map_of_SomeD)
    with JObj.prems have "nan_free v" by (auto simp add: list_all_iff)
    with JObj.IH m have "py_eq v v" by (force simp add: snds.simps)
    with v show ?thesis by simp
  qed
  then show ?case by (simp add: list_all_iff)
qed (simp_all add: float_eq_refl)

lemma nan_not_py_eq: "\<not> py_eq (JObj [(''statistic'', JNum NaN)]) (JObj [(''statistic'', JNum NaN)])"
  by simp

text \<open>
  An entry whose \<open>created\<close> key is missing, or holds a string that \<open>fromisoformat\<close>
  rejects, is marked as expired whatever the time-to-live is.
\<close>

lemma invalid_timestamp_marked_expired:
  assumes "getitem entry ''created'' = Inl (KeyError k) \<or>
           (\<exists>s. getitem entry ''created'' = Inr (JStr s) \<and> fromisoformat L s = None)"
  shows "is_expired L now t entry = Inr True"
  using assms by (auto simp add: is_expired_def entry_age_exceeds_def)

subsection \<open>Round trip\<close>

text \<open>
  C3. When the writes of \<open>cache_result\<close> succeed, it returns the generated identifier,
  and \<open>get_result\<close> with that identifier (raw data not requested, the read not failing)
  returns the document that was written; for a payload without NaN that is equality in
  Python's sense, field for field (a NaN number is read back as NaN, which \<open>==\<close> calls
  equal to nothing). Before expiry the payload stays: after an expiry sweep at a time when
  the entry's age is within the time-to-live, whether the sweep completes or raises,
  \<open>get_result\<close> still returns it, provided the index is a dictionary and no other entry
  names the payload's file as its own. After \<open>delete_result\<close> on the identifier, and
  after a sweep that completes at a time when the entry is older than the time-to-live,
  \<open>get_result\<close> returns not-found. \<open>get_result\<close> itself never looks at the age of an
  entry: expiry acts through the sweep only.
\<close>

theorem cache_round_trip:
  assumes w1: "write_fault i (test_results_dir c @ ''/'' @ generate_test_id L now_id ident tt @ ''.json'') = WriteOk"
      and w2: "raw = None \<or> \<not> truthy (the raw) \<or>
           write_fault i (test_results_dir c @ ''/'' @ generate_test_id L now_id ident tt @ ''_data.json'') = WriteOk"
  shows "\<exists>c1. cache_result L i now_id now_created ident tt payload raw c =
                 (generate_test_id L now_id ident tt, c1) \<and>
           (\<not> read_fails i2 (test_results_dir c @ ''/'' @ generate_test_id L now_id ident tt @ ''.json'') \<longrightarrow>
              get_result i2 (generate_test_id L now_id ident tt) False c1 = (Inr (Some payload), c1) \<and>
              (nan_free payload \<longrightarrow>
                 (\<exists>res. fst (get_result i2 (generate_test_id L now_id ident tt) False c1) =
                          Inr (Some res) \<and> py_eq res payload))) \<and>
           (distinct (map fst (entries c)) \<and>
            (\<forall>k e. (k, e) \<in> set (entries c) \<longrightarrow> k \<noteq> generate_test_id L now_id ident tt \<longrightarrow>
               \<not> refers_to e (test_results_dir c @ ''/'' @ generate_test_id L now_id ident tt @ ''.json'')) \<and>
            fromisoformat L (isoformat L now_created) = Some (Naive now_created) \<and>
            now7 - now_created \<le> ttl c \<and>
            \<not> read_fails i8 (test_results_dir c @ ''/'' @ generate_test_id L now_id ident tt @ ''.json'') \<longrightarrow>
              fst (get_result i8 (generate_test_id L now_id ident tt) False
                    (snd (cleanup_expired L i7 now7 c1))) = Inr (Some payload)) \<and>
           (\<exists>c2. delete_result i3 (generate_test_id L now_id ident tt) c1 = (None, c2) \<and>
                 get_result i4 (generate_test_id L now_id ident tt) inc c2 = (Inr None, c2)) \<and>
           (\<forall>c3. fromisoformat L (isoformat L now_created) = Some (Naive now_created) \<and>
                 now - now_created > ttl c \<and> cleanup_expired L i5 now c1 = (None, c3) \<longrightarrow>
                 get_result i6 (generate_test_id L now_id ident tt) inc c3 = (Inr None, c3))"
proof -
  let ?tid = "generate_test_id L now_id ident tt"
  let ?p = "test_results_dir c @ ''/'' @ ?tid @ ''.json''"
  obtain c1 where cr: "cache_result L i now_id now_created ident tt payload raw c = (?tid, c1)"
    and t: "ttl c1 = ttl c"
    and m: "map_of (entries c1) ?tid = Some (written_entry L c ?tid now_created tt raw)"
    and f: "files c1 ?p = Some (JsonDoc payload)"
    using cache_result_ok [OF w1 w2] by blast
  from cr have s1: "snd (cache_result L i now_id now_created ident tt payload raw c) = c1"
    by simp
  have rt: "get_result i2 ?tid False c1 = (Inr (Some payload), c1)"
    if "\<not> read_fails i2 ?p"
    using get_result_written [OF m f that] .
  have pe: "\<exists>res. fst (get_result i2 ?tid False c1) = Inr (Some res) \<and> py_eq res payload"
    if "\<not> read_fails i2 ?p" "nan_free payload"
    using rt [OF that(1)] py_eq_refl [OF that(2)] by simp
  have keep: "fst (get_result i8 ?tid False (snd (cleanup_expired L i7 now7 c1))) =
              Inr (Some payload)"
    if "distinct (map fst (entries c))"
      and "\<forall>k e. (k, e) \<in> set (entries c) \<longrightarrow> k \<noteq> ?tid \<longrightarrow> \<not> refers_to e ?p"
      and "fromisoformat L (isoformat L now_created) = Some (Naive now_created)"
      and "now7 - now_created \<le> ttl c"
      and "\<not> read_fails i8 ?p"
    using fresh_payload_kept [OF w1 w2 that, of i7 payload] unfolding s1 .
  have del: "\<exists>c2. delete_result i3 ?tid c1 = (None, c2) \<and> get_result i4 ?tid inc c2 = (Inr None, c2)"
    using delete_result_written [OF m] get_result_absent by blast
  have ex: "get_result i6 ?tid inc c3 = (Inr None, c3)"
    if "fromisoformat L (isoformat L now_created) = Some (Naive now_created)"
      and "now - now_created > ttl c" and "cleanup_expired L i5 now c1 = (None, c3)" for c3
  proof -
    have "(?tid, written_entry L c ?tid now_created tt raw) \<in> set (entries c1)"
      using m by (rule map_of_SomeD)
    moreover have "is_expired L now (ttl c1) (written_entry L c ?tid now_created tt raw) = Inr True"
      using is_expired_written [OF that(1)] that(2) t by simp
    ultimately have "map_of (entries c3) ?tid = None"
      using cleanup_removes_expired [OF that(3)] by blast
    then show ?thesis by (rule get_result_absent)
  qed
  show ?thesis using cr rt pe keep del ex by blast
qed

theorem cache_round_trip_witness:
  "write_fault ex_io (test_results_dir ex_cache @ ''/'' @ generate_test_id ex_pylib 0 7 ''one_sample_t_test'' @ ''.json'') = WriteOk \<and>
   fst (cache_result ex_pylib ex_io 0 0 7 ''one_sample_t_test'' ex_payload None ex_cache) = ''aaaaaaaaaaaaaaaa'' \<and>
   \<not> read_fails ex_io (test_results_dir ex_cache @ ''/'' @ generate_test_id ex_pylib 0 7 ''one_sample_t_test'' @ ''.json'') \<and>
   fst (get_result ex_io ''aaaaaaaaaaaaaaaa'' False
         (snd (cache_result ex_pylib ex_io 0 0 7 ''one_sample_t_test'' ex_payload None ex_cache))) =
     Inr (Some ex_payload) \<and>
   nan_free ex_payload \<and>
   py_eq ex_payload ex_payload \<and>
   fst (get_result ex_io ''aaaaaaaaaaaaaaaa'' False
         (snd (delete_result ex_io ''aaaaaaaaaaaaaaaa''
           (snd (cache_result ex_pylib ex_io 0 0 7 ''one_sample_t_test'' ex_payload None ex_cache))))) =
     Inr None \<and>
   fromisoformat ex_pylib (isoformat ex_pylib 0) = Some (Naive 0) \<and>
   (100::int) - 0 > ttl ex_cache \<and>
   fst (cleanup_expired ex_pylib ex_io 100
         (snd (cache_result ex_pylib ex_io 0 0 7 ''one_sample_t_test'' ex_payload None ex_cache))) = None \<and>
   fst (get_result ex_io ''aaaaaaaaaaaaaaaa'' False
         (snd (cleanup_expired ex_pylib ex_io 100
           (snd (cache_result ex_pylib ex_io 0 0 7 ''one_sample_t_test'' ex_payload None ex_cache))))) =
     Inr None \<and>
   distinct (map fst (entries ex_cache_two)) \<and>
   list_all (\<lambda>(k, e). \<not> refers_to e ''/tmp/c/test_results/aaaaaaaaaaaaaaaa.json'')
     (entries ex_cache_two) \<and>
   fromisoformat ex_pylib (isoformat ex_pylib 100) = Some (Naive 100) \<and>
   (110::int) - 100 \<le> ttl ex_cache_two \<and>
   map fst (entries (snd (cleanup_expired ex_pylib ex_io 110
     (snd (cache_result ex_pylib ex_io 100 100 7 ''one_sample_t_test'' ex_payload None ex_cache_two))))) =
     [''new'', ''aaaaaaaaaaaaaaaa''] \<and>
   fst (get_result ex_io ''aaaaaaaaaaaaaaaa'' False
         (snd (cleanup_expired ex_pylib ex_io 110
           (snd (cache_result ex_pylib ex_io 100 100 7 ''one_sample_t_test'' ex_payload None ex_cache_two))))) =
     Inr (Some ex_payload)"
proof -
  let ?cr = "cache_result ex_pylib ex_io 0 0 7 ''one_sample_t_test'' ex_payload None ex_cache"
  let ?cr2 = "cache_result ex_pylib ex_io 100 100 7 ''one_sample_t_test'' ex_payload None ex_cache_two"
  have w: "write_fault ex_io (test_results_dir c @ ''/'' @ generate_test_id ex_pylib n 7 ''one_sample_t_test'' @ ''.json'') = WriteOk" for c n
    by (simp add: ex_io_def)
  have nr: "\<not> read_fails ex_io (test_results_dir c @ ''/'' @ generate_test_id ex_pylib n 7 ''one_sample_t_test'' @ ''.json'')" for c n
    by (simp add: ex_io_def)
  have iso: "fromisoformat ex_pylib (isoformat ex_pylib 0) = Some (Naive 0)"
    by code_simp
  have iso100: "fromisoformat ex_pylib (isoformat ex_pylib 100) = Some (Naive 100)"
    by code_simp
  have age: "(100::int) - 0 > ttl ex_cache" by (simp add: ex_cache_def)
  have age2: "(110::int) - 100 \<le> ttl ex_cache_two" by (simp add: ex_cache_two_def)
  have nf: "nan_free ex_payload" by (simp add: ex_payload_def)
  have sweep: "fst (cleanup_expired ex_pylib ex_io 100 (snd ?cr)) = None"
    by code_simp
  have d2: "distinct (map fst (entries ex_cache_two))" by code_simp
  have la: "list_all (\<lambda>(k, e). \<not> refers_to e ''/tmp/c/test_results/aaaaaaaaaaaaaaaa.json'')
     (entries ex_cache_two)"
    by code_simp
  have p2: "test_results_dir ex_cache_two @ ''/'' @ generate_test_id ex_pylib 100 7 ''one_sample_t_test'' @ ''.json'' =
            ''/tmp/c/test_results/aaaaaaaaaaaaaaaa.json''"
    by (simp add: ex_test_id test_results_dir_def ex_cache_two_def)
  have inv: "\<forall>k e. (k, e) \<in> set (entries ex_cache_two) \<longrightarrow>
               k \<noteq> generate_test_id ex_pylib 100 7 ''one_sample_t_test'' \<longrightarrow>
               \<not> refers_to e (test_results_dir ex_cache_two @ ''/'' @
                    generate_test_id ex_pylib 100 7 ''one_sample_t_test'' @ ''.json'')"
    using la unfolding p2 by (auto simp add: list_all_iff)
  have keys: "map fst (entries (snd (cleanup_expired ex_pylib ex_io 110 (snd ?cr2)))) =
     [''new'', ''aaaaaaaaaaaaaaaa'']"
    by code_simp
  note t2 = cache_round_trip
      [where i = ex_io and c = ex_cache_two and L = ex_pylib and now_id = 100 and ident = 7
         and tt = "''one_sample_t_test''" and raw = None and now_created = 100
         and payload = ex_payload and ?i2.0 = ex_io and ?now7.0 = 110 and ?i7.0 = ex_io
         and ?i8.0 = ex_io and ?i3.0 = ex_io and ?i4.0 = ex_io and inc = False and now = 0
         and ?i5.0 = ex_io and ?i6.0 = ex_io]
  from t2 w [of ex_cache_two 100]
  obtain c1' where cr2: "?cr2 = (generate_test_id ex_pylib 100 7 ''one_sample_t_test'', c1')"
    and keep: "fst (get_result ex_io (generate_test_id ex_pylib 100 7 ''one_sample_t_test'') False
                 (snd (cleanup_expired ex_pylib ex_io 110 c1'))) = Inr (Some ex_payload)"
    using d2 inv iso100 age2 nr [of ex_cache_two 100] by auto
  from cr2 have s2: "snd ?cr2 = c1'" by simp
  from keep have k: "fst (get_result ex_io ''aaaaaaaaaaaaaaaa'' False
                 (snd (cleanup_expired ex_pylib ex_io 110 (snd ?cr2)))) = Inr (Some ex_payload)"
    unfolding s2 by (simp add: ex_test_id)
  note t1 = cache_round_trip
      [where i = ex_io and c = ex_cache and L = ex_pylib and now_id = 0 and ident = 7
         and tt = "''one_sample_t_test''" and raw = None and now_created = 0
         and payload = ex_payload and ?i2.0 = ex_io and ?now7.0 = 0 and ?i7.0 = ex_io
         and ?i8.0 = ex_io and ?i3.0 = ex_io and ?i4.0 = ex_io and inc = False and now = 100
         and ?i5.0 = ex_io and ?i6.0 = ex_io]
  from t1 w [of ex_cache 0]
  obtain c1 where cr: "?cr = (generate_test_id ex_pylib 0 7 ''one_sample_t_test'', c1)"
    and rt: "get_result ex_io (generate_test_id ex_pylib 0 7 ''one_sample_t_test'') False c1 = (Inr (Some ex_payload), c1)"
    and pe: "\<exists>res. fst (get_result ex_io (generate_test_id ex_pylib 0 7 ''one_sample_t_test'') False c1) =
                 Inr (Some res) \<and> py_eq res ex_payload"
    and del: "\<exists>c2. delete_result ex_io (generate_test_id ex_pylib 0 7 ''one_sample_t_test'') c1 = (None, c2) \<and>
                 get_result ex_io (generate_test_id ex_pylib 0 7 ''one_sample_t_test'') False c2 = (Inr None, c2)"
    and ex: "\<And>c3. cleanup_expired ex_pylib ex_io 100 c1 = (None, c3) \<Longrightarrow>
                 get_result ex_io (generate_test_id ex_pylib 0 7 ''one_sample_t_test'') False c3 = (Inr None, c3)"
    using nr [of ex_cache 0] iso age nf by auto
  from cr have s: "snd ?cr = c1" and f: "fst ?cr = ''aaaaaaaaaaaaaaaa''"
    by (simp_all add: ex_test_id)
  from pe rt have pq: "py_eq ex_payload ex_payload" by auto
  from sweep s have "cleanup_expired ex_pylib ex_io 100 c1 = (None, snd (cleanup_expired ex_pylib ex_io 100 c1))"
    by (metis prod.collapse)
  from ex [OF this] have e: "fst (get_result ex_io ''aaaaaaaaaaaaaaaa'' False (snd (cleanup_expired ex_pylib ex_io 100 c1))) = Inr None"
    by (simp add: ex_test_id)
  from del have d: "fst (get_result ex_io ''aaaaaaaaaaaaaaaa'' False (snd (delete_result ex_io ''aaaaaaaaaaaaaaaa'' c1))) = Inr None"
    by (auto simp add: ex_test_id)
  from rt have r: "fst (get_result ex_io ''aaaaaaaaaaaaaaaa'' False c1) = Inr (Some ex_payload)"
    by (simp add: ex_test_id)
  show ?thesis
    using w [of ex_cache 0] f nr [of ex_cache 0] r nf pq d iso age sweep e d2 la iso100 age2 keys k
    unfolding s by blast
qed

subsection \<open>Expiry\<close>

text \<open>
  C5. The expiry sweep is idempotent at a fixed current time, for every cache whose index
  is a dictionary (no key twice): a second sweep, whatever I/O faults it meets, leaves the
  index entries exactly as the first sweep left them; under the same faults it leaves the
  whole cache state, files included, as the first sweep left it. This also holds when the
  first sweep is cut short by an exception.
\<close>

theorem expiry_sweep_idempotent:
  assumes "distinct (map fst (entries c))"
  shows "entries (snd (cleanup_expired L i2 now (snd (cleanup_expired L i now c)))) =
           entries (snd (cleanup_expired L i now c)) \<and>
         snd (cleanup_expired L i now (snd (cleanup_expired L i now c))) =
           snd (cleanup_expired L i now c)"
proof (cases "expired_ids L now (ttl c) (entries c)")
  case (Inl e)
  then show ?thesis by (simp add: cleanup_expired_def)
next
  case (Inr ids)
  obtain r c' where da: "delete_all i ids c = (r, c')" by (cases "delete_all i ids c")
  show ?thesis
  proof (cases r)
    case None
    let ?c0 = "c'\<lparr>last_cleanup := JStr (isoformat L now)\<rparr>"
    let ?c1 = "save_index i ?c0"
    from da None have en: "entries c' = filter (\<lambda>p. fst p \<notin> set ids) (entries c)"
      and t: "ttl c' = ttl c"
      using delete_all_entries by blast+
    have first: "cleanup_expired L i now c = (None, ?c1)"
      using Inr da None by (simp add: cleanup_expired_def)
    have ex: "expired_ids L now (ttl ?c1) (entries ?c1) = Inr []"
      using expired_ids_all_expired [OF Inr] en t by simp
    have upd: "?c1\<lparr>last_cleanup := JStr (isoformat L now)\<rparr> = ?c1"
      by (simp add: save_index_def)
    have "cleanup_expired L j now ?c1 =
            (None, save_index j (?c1\<lparr>last_cleanup := JStr (isoformat L now)\<rparr>))" for j
      unfolding cleanup_expired_def ex by simp
    then have second: "cleanup_expired L j now ?c1 = (None, save_index j ?c1)" for j
      by (simp only: upd)
    show ?thesis
      unfolding first snd_conv second using save_index_idem [of i ?c0] by simp
  next
    case (Some e)
    from da Some obtain dn k rs cm where
      ids: "ids = dn @ k # rs"
      and en: "entries cm = filter (\<lambda>p. fst p \<notin> set dn) (entries c)"
      and t: "ttl cm = ttl c"
      and dr: "delete_result i k cm = (Some e, c')"
      using delete_all_fails_at by blast
    have first: "cleanup_expired L i now c = (Some e, c')"
      using Inr da Some by (simp add: cleanup_expired_def)
    have st: "delete_result j k c' = (Some e, c')" and en': "entries c' = entries cm"
      and t': "ttl c' = ttl cm" for j
      using delete_result_sticky [OF dr] by blast+
    have "distinct ids" using expired_ids_distinct [OF Inr assms] .
    with ids have "filter (\<lambda>x. x \<notin> set dn) ids = k # rs"
      by (auto simp add: filter_id_conv)
    with expired_ids_filter [OF Inr, of "set dn"] en en' t t'
    have ex: "expired_ids L now (ttl c') (entries c') = Inr (k # rs)" by simp
    have second: "cleanup_expired L j now c' = (Some e, c')" for j
      using ex st by (simp add: cleanup_expired_def)
    show ?thesis unfolding first snd_conv second by simp
  qed
qed

theorem expiry_sweep_idempotent_witness:
  "distinct (map fst (entries ex_cache_two)) \<and>
   map fst (entries ex_cache_two) = [''old'', ''new''] \<and>
   map fst (entries (snd (cleanup_expired ex_pylib ex_io 100 ex_cache_two))) = [''new''] \<and>
   entries (snd (cleanup_expired ex_pylib ex_io_fail 100
              (snd (cleanup_expired ex_pylib ex_io 100 ex_cache_two)))) =
     entries (snd (cleanup_expired ex_pylib ex_io 100 ex_cache_two)) \<and>
   snd (cleanup_expired ex_pylib ex_io 100 (snd (cleanup_expired ex_pylib ex_io 100 ex_cache_two))) =
     snd (cleanup_expired ex_pylib ex_io 100 ex_cache_two)"
proof -
  have d: "distinct (map fst (entries ex_cache_two))" by code_simp
  have k: "map fst (entries ex_cache_two) = [''old'', ''new'']" by code_simp
  have k1: "map fst (entries (snd (cleanup_expired ex_pylib ex_io 100 ex_cache_two))) = [''new'']"
    by code_simp
  show ?thesis
    using expiry_sweep_idempotent [OF d, of ex_pylib ex_io_fail 100 ex_io] d k k1 by blast
qed

text \<open>
  C6. The sweep does not delete every entry with a missing or unparsable timestamp. With
  an entry whose \<open>created\<close> is the string \<open>not-a-date\<close> followed by an entry whose
  \<open>created\<close> is \<open>null\<close>, \<open>fromisoformat\<close> raises TypeError on the second one, which the
  \<open>except (KeyError, ValueError)\<close> clause does not catch: the sweep ends with that
  exception and both entries stay. With an entry that has neither \<open>created\<close> nor
  \<open>result_file\<close>, the entry is marked as expired and \<open>delete_result\<close> raises KeyError,
  so the entry stays as well.
\<close>

theorem sweep_aborts_on_malformed_entry:
  "cleanup_expired ex_pylib ex_io 100 ex_cache_bad =
     (Some (TypeError ''fromisoformat: argument must be str''), ex_cache_bad) \<and>
   cleanup_expired ex_pylib ex_io 100 ex_cache_bare =
     (Some (KeyError ''result_file''), ex_cache_bare)"
  by (simp add: cleanup_expired_def ex_cache_bad_def ex_cache_bare_def ex_entry_def is_expired_def
      entry_age_exceeds_def ex_pylib_def delete_result_def delete_entry_files_def ebind_def)

subsection \<open>Write failures\<close>

text \<open>
  C7. When the write of the result file, or of the raw-data file, fails, \<open>cache_result\<close>
  returns \<open>cache_error_\<close> followed by the generated identifier and inserts no index
  entry; with a 64-character digest no generated identifier equals that sentinel. A
  pipeline run whose cache write fails returns the result it returns without a cache,
  with the sentinel as its \<open>cache_id\<close>.
\<close>

theorem cache_write_failure_gives_sentinel:
  "(write_fault i (test_results_dir c @ ''/'' @ generate_test_id L now_id ident tt @ ''.json'') \<noteq> WriteOk \<or>
    (raw \<noteq> None \<and> truthy (the raw) \<and>
     write_fault i (test_results_dir c @ ''/'' @ generate_test_id L now_id ident tt @ ''_data.json'') \<noteq> WriteOk)
    \<longrightarrow>
      fst (cache_result L i now_id now_created ident tt payload raw c) =
        ''cache_error_'' @ generate_test_id L now_id ident tt \<and>
      entries (snd (cache_result L i now_id now_created ident tt payload raw c)) = entries c \<and>
      ((\<forall>x. length (sha256_hexdigest L x) = 64) \<longrightarrow>
         (\<forall>n' d' t'. generate_test_id L n' d' t' \<noteq>
                       ''cache_error_'' @ generate_test_id L now_id ident tt))) \<and>
   (write_fault i (test_results_dir c @ ''/'' @
       generate_test_id L (id_time k) (params_id k) (test_type_value s) @ ''.json'') \<noteq> WriteOk \<and>
    run L S P i k s a args None = (Inr r, None)
    \<longrightarrow>
      (\<exists>c'. run L S P i k s a args (Some c) =
           (Inr (r\<lparr>cache_id := Some (''cache_error_'' @
                 generate_test_id L (id_time k) (params_id k) (test_type_value s))\<rparr>), Some c') \<and>
          entries c' = entries c))"
  using cache_result_write_fails [of i c L now_id ident tt raw now_created payload]
    sentinel_not_an_identifier [of L _ _ _ now_id ident tt]
    run_with_failing_cache [of i c L k s S P a args r]
  by blast

theorem cache_write_failure_gives_sentinel_witness:
  "write_fault ex_io_fail (test_results_dir ex_cache @ ''/'' @
      generate_test_id ex_pylib 0 7 ''one_sample_t_test'' @ ''.json'') \<noteq> WriteOk \<and>
   fst (cache_result ex_pylib ex_io_fail 0 0 7 ''one_sample_t_test'' ex_payload None ex_cache) =
     ''cache_error_aaaaaaaaaaaaaaaa'' \<and>
   entries (snd (cache_result ex_pylib ex_io_fail 0 0 7 ''one_sample_t_test'' ex_payload None ex_cache)) = [] \<and>
   (\<forall>x. length (sha256_hexdigest ex_pylib x) = 64) \<and>
   (\<forall>n' d' t'. generate_test_id ex_pylib n' d' t' \<noteq> ''cache_error_aaaaaaaaaaaaaaaa'') \<and>
   run ex_pylib ex_stats ex_procs ex_io_fail ex_clock OneSampleTTest (Num 0.05)
     [[Num 1, Num 2, Num 3]] None = (Inr ex_result, None) \<and>
   fst (run ex_pylib ex_stats ex_procs ex_io_fail ex_clock OneSampleTTest (Num 0.05)
     [[Num 1, Num 2, Num 3]] (Some ex_cache)) =
     Inr (ex_result\<lparr>cache_id := Some ''cache_error_aaaaaaaaaaaaaaaa''\<rparr>)"
proof -
  have w: "write_fault ex_io_fail (test_results_dir ex_cache @ ''/'' @
      generate_test_id ex_pylib n d ''one_sample_t_test'' @ ''.json'') \<noteq> WriteOk" for n d
    by (simp add: ex_io_fail_def)
  have h: "\<forall>x. length (sha256_hexdigest ex_pylib x) = 64"
    by (simp add: ex_pylib_def)
  have r: "run ex_pylib ex_stats ex_procs ex_io_fail ex_clock OneSampleTTest (Num 0.05)
     [[Num 1, Num 2, Num 3]] None = (Inr ex_result, None)"
    by (rule ex_run_one_sample_any_io)
  have e: "entries ex_cache = []" by (simp add: ex_cache_def)
  have wr: "write_fault ex_io_fail (test_results_dir ex_cache @ ''/'' @
       generate_test_id ex_pylib (id_time ex_clock) (params_id ex_clock)
         (test_type_value OneSampleTTest) @ ''.json'') \<noteq> WriteOk"
    by (simp add: ex_io_fail_def)
  note t = cache_write_failure_gives_sentinel
      [where i = ex_io_fail and c = ex_cache and L = ex_pylib and now_id = 0 and ident = 7
         and tt = "''one_sample_t_test''" and raw = None and now_created = 0
         and payload = ex_payload and k = ex_clock and s = OneSampleTTest and S = ex_stats
         and P = ex_procs and a = "Num 0.05" and args = "[[Num 1, Num 2, Num 3]]"
         and r = ex_result]
  from t w [of 0 7] h have
    a1: "fst (cache_result ex_pylib ex_io_fail 0 0 7 ''one_sample_t_test'' ex_payload None ex_cache) =
           ''cache_error_aaaaaaaaaaaaaaaa''"
    and a2: "entries (snd (cache_result ex_pylib ex_io_fail 0 0 7 ''one_sample_t_test'' ex_payload None ex_cache)) = []"
    and a3: "\<forall>n' d' t'. generate_test_id ex_pylib n' d' t' \<noteq> ''cache_error_aaaaaaaaaaaaaaaa''"
    by (simp_all add: ex_test_id e)
  from t wr r have
    a4: "fst (run ex_pylib ex_stats ex_procs ex_io_fail ex_clock OneSampleTTest (Num 0.05)
     [[Num 1, Num 2, Num 3]] (Some ex_cache)) =
     Inr (ex_result\<lparr>cache_id := Some ''cache_error_aaaaaaaaaaaaaaaa''\<rparr>)"
    by (auto simp add: ex_test_id)
  show ?thesis using w [of 0 7] a1 a2 h a3 r a4 by blast
qed

subsection \<open>Reads\<close>

text \<open>
  C9. \<open>get_result\<close> and \<open>list_cached_tests\<close> return the cache state they were given:
  index entries, their fields and every file are unchanged, on a hit, on a miss, when a
  file is absent or unreadable, and when a malformed entry makes them raise.
\<close>

theorem cache_reads_leave_state_unchanged:
  "snd (get_result i test_id include_raw_data c) = c \<and> snd (list_cached_tests L c) = c"
  by (simp add: get_result_def list_cached_tests_def
      split: option.splits sum.splits)

section \<open>The suggestion engine\<close>

lemma suggest_test_propagates_error:
  "analyze_data S groups = Inl e \<Longrightarrow> suggest_test S groups mu0 = Inl e"
  by (simp add: suggest_test_def ebind_def)

lemma analyze_data_single:
  assumes "analyze_data S [data] = Inr chars"
  shows "n_groups chars = 1 \<and> n_samples chars = length data \<and>
         data_type chars = infer_data_type data \<and>
         check_normality S [data] = Inr (is_normal chars) \<and>
         sample_size_adequate chars =
           (length data \<ge> 30 \<or> (length data \<ge> 20 \<and> is_normal chars))"
  using assms
  by (auto simp add: analyze_data_def ebind_def Let_def split: sum.splits)

text \<open>
  C8. For a single group whose analysis succeeds, \<open>suggest_test\<close> returns the one-sample
  branch of the table: on a continuous scale (as \<open>_infer_data_type\<close> infers it from the
  data) with the data normal or adequately sized, the primary test is the one-sample
  t-test; on a continuous scale with the data neither normal nor adequately sized, the
  Wilcoxon signed-rank test; on any other scale, the sign test. Normality is the result of
  \<open>_check_normality\<close>, and the size is adequate from 30 observations, or from 20 when
  the data is normal.
\<close>

theorem single_group_suggestion_follows_table:
  assumes "analyze_data S [data] = Inr chars"
  shows "\<exists>sug. suggest_test S [data] mu0 = Inr sug \<and>
           data_type chars = infer_data_type data \<and>
           check_normality S [data] = Inr (is_normal chars) \<and>
           sample_size_adequate chars =
             (length data \<ge> 30 \<or> (length data \<ge> 20 \<and> is_normal chars)) \<and>
           (data_type chars = ''continuous'' \<and> (is_normal chars \<or> sample_size_adequate chars) \<longrightarrow>
              map_of sug ''primary_test'' = Some (JStr ''one_sample_t_test'')) \<and>
           (data_type chars = ''continuous'' \<and> \<not> is_normal chars \<and> \<not> sample_size_adequate chars \<longrightarrow>
              map_of sug ''primary_test'' = Some (JStr ''wilcoxon_signed_rank'')) \<and>
           (data_type chars \<noteq> ''continuous'' \<longrightarrow>
              map_of sug ''primary_test'' = Some (JStr ''sign_test''))"
proof -
  from analyze_data_single [OF assms] have g: "n_groups chars = 1"
    and rest: "data_type chars = infer_data_type data"
      "check_normality S [data] = Inr (is_normal chars)"
      "sample_size_adequate chars =
         (length data \<ge> 30 \<or> (length data \<ge> 20 \<and> is_normal chars))"
    by blast+
  have s: "suggest_test S [data] mu0 = Inr (suggest_one_sample_test chars mu0)"
    using assms g by (simp add: suggest_test_def ebind_def)
  have t: "map_of (suggest_one_sample_test chars mu0) ''primary_test'' =
             Some (JStr ''one_sample_t_test'')"
    if "data_type chars = ''continuous''" "is_normal chars \<or> sample_size_adequate chars"
    using that by (auto simp add: suggest_one_sample_test_def)
  have w: "map_of (suggest_one_sample_test chars mu0) ''primary_test'' =
             Some (JStr ''wilcoxon_signed_rank'')"
    if "data_type chars = ''continuous''" "\<not> is_normal chars" "\<not> sample_size_adequate chars"
    using that by (simp add: suggest_one_sample_test_def)
  have n: "map_of (suggest_one_sample_test chars mu0) ''primary_test'' = Some (JStr ''sign_test'')"
    if "data_type chars \<noteq> ''continuous''"
    using that by (simp add: suggest_one_sample_test_def)
  show ?thesis using s rest t w n by blast
qed

lemma ex_analyze_normal: "analyze_data ex_stats [ex_data11] = Inr (ex_chars 11 True ''continuous'')"
  by code_simp

lemma ex_analyze_skewed:
  "analyze_data ex_stats_skewed [ex_data11] = Inr (ex_chars 11 False ''continuous'')"
  by code_simp

lemma ex_analyze_ordinal:
  "analyze_data ex_stats [[Num 1, Num 2, Num 3]] = Inr (ex_chars 3 True ''ordinal'')"
  by code_simp

theorem single_group_suggestion_follows_table_witness:
  "analyze_data ex_stats [ex_data11] = Inr (ex_chars 11 True ''continuous'') \<and>
   data_type (ex_chars 11 True ''continuous'') = ''continuous'' \<and>
   is_normal (ex_chars 11 True ''continuous'') \<and>
   map_of (projr (suggest_test ex_stats [ex_data11] None)) ''primary_test'' =
     Some (JStr ''one_sample_t_test'') \<and>
   analyze_data ex_stats_skewed [ex_data11] = Inr (ex_chars 11 False ''continuous'') \<and>
   \<not> is_normal (ex_chars 11 False ''continuous'') \<and>
   \<not> sample_size_adequate (ex_chars 11 False ''continuous'') \<and>
   map_of (projr (suggest_test ex_stats_skewed [ex_data11] None)) ''primary_test'' =
     Some (JStr ''wilcoxon_signed_rank'') \<and>
   analyze_data ex_stats [[Num 1, Num 2, Num 3]] = Inr (ex_chars 3 True ''ordinal'') \<and>
   data_type (ex_chars 3 True ''ordinal'') \<noteq> ''continuous'' \<and>
   map_of (projr (suggest_test ex_stats [[Num 1, Num 2, Num 3]] None)) ''primary_test'' =
     Some (JStr ''sign_test'')"
proof -
  have c1: "data_type (ex_chars 11 True ''continuous'') = ''continuous''"
    and c2: "is_normal (ex_chars 11 True ''continuous'')"
    and c3: "data_type (ex_chars 11 False ''continuous'') = ''continuous''"
    and c4: "\<not> is_normal (ex_chars 11 False ''continuous'')"
    and c5: "\<not> sample_size_adequate (ex_chars 11 False ''continuous'')"
    and c6: "data_type (ex_chars 3 True ''ordinal'') \<noteq> ''continuous''"
    by (simp_all add: ex_chars_def)
  have a: "map_of (projr (suggest_test ex_stats [ex_data11] None)) ''primary_test'' =
     Some (JStr ''one_sample_t_test'')"
    using single_group_suggestion_follows_table [OF ex_analyze_normal, of None] c1 c2 by auto
  have b: "map_of (projr (suggest_test ex_stats_skewed [ex_data11] None)) ''primary_test'' =
     Some (JStr ''wilcoxon_signed_rank'')"
    using single_group_suggestion_follows_table [OF ex_analyze_skewed, of None] c3 c4 c5 by auto
  have c: "map_of (projr (suggest_test ex_stats [[Num 1, Num 2, Num 3]] None)) ''primary_test'' =
     Some (JStr ''sign_test'')"
    using single_group_suggestion_follows_table [OF ex_analyze_ordinal, of None] c6 by auto
  show ?thesis
    using ex_analyze_normal ex_analyze_skewed ex_analyze_ordinal c1 c2 c4 c5 c6 a b c by blast
qed

end
